theory Spec2Isabelle
  imports Complex_Main
begin

section \<open>Python values\<close>

text \<open>
  The configuration of the assistant is whatever \<^verbatim>\<open>json.load\<close> returns, updated in place
  by the program: \<^verbatim>\<open>None\<close>, booleans, integers, floats, strings, lists and dictionaries
  with string keys. A dictionary keeps its insertion order, so it is an association list
  whose keys are distinct; a Python string is the list of the bytes of its UTF-8 text.
  Floats are carried by their (finite) value.
\<close>

datatype json =
    JNull
  | JBool bool
  | JInt int
  | JFloat rat
  | JStr string
  | JList "json list"
  | JDict "(string \<times> json) list"

type_synonym dict = "(string \<times> json) list"

datatype error =
    KeyError | IndexError | TypeError | ValueError | AttributeError
  | OSError | JSONDecodeError | RequestException | HTTPError | RuntimeError | TclError
  | OtherError string

text \<open>\<^verbatim>\<open>d.get(k)\<close> and \<^verbatim>\<open>k in d\<close>.\<close>

definition dict_get :: "dict \<Rightarrow> string \<Rightarrow> json option" where
  "dict_get d k = map_of d k"

text \<open>\<^verbatim>\<open>d[k] = v\<close>: an existing key keeps its place, a new key goes to the end.\<close>

fun dict_set :: "dict \<Rightarrow> string \<Rightarrow> json \<Rightarrow> dict" where
  "dict_set [] k v = [(k, v)]"
| "dict_set ((k', v') # kvs) k v =
     (if k' = k then (k, v) # kvs else (k', v') # dict_set kvs k v)"

text \<open>\<^verbatim>\<open>s.split(c)\<close> for a one-character separator: always at least one part.\<close>

fun split_on :: "char \<Rightarrow> string \<Rightarrow> string list" where
  "split_on c [] = [[]]"
| "split_on c (x # xs) =
     (if x = c then [] # split_on c xs
      else (case split_on c xs of
              w # ws \<Rightarrow> (x # w) # ws
            | [] \<Rightarrow> [[x]]))"

section \<open>ConfigManager\<close>

text \<open>
  \<^verbatim>\<open>ConfigManager.get\<close>: the loop over the parts of the key path, with its early
  \<^verbatim>\<open>return default\<close>.
\<close>

fun get_parts :: "json \<Rightarrow> string list \<Rightarrow> json \<Rightarrow> json" where
  "get_parts cur [] dflt = cur"
| "get_parts cur (p # ps) dflt =
     (case cur of
        JDict kvs \<Rightarrow>
          (case dict_get kvs p of
             Some v \<Rightarrow> get_parts v ps dflt
           | None \<Rightarrow> dflt)
      | _ \<Rightarrow> dflt)"

definition ConfigManager_get :: "dict \<Rightarrow> string \<Rightarrow> json \<Rightarrow> json" where
  "ConfigManager_get data key_path dflt = get_parts (JDict data) (split_on CHR ''.'' key_path) dflt"

text \<open>
  \<^verbatim>\<open>ConfigManager.set\<close>: the loop over \<^verbatim>\<open>parts[:-1]\<close> replaces a missing or
  non-dictionary entry by \<^verbatim>\<open>{}\<close> and descends; then \<^verbatim>\<open>cur[parts[-1]] = value\<close>.
  The dictionaries are mutated in place, so the result is the top-level dictionary
  with the path rewritten.
\<close>

fun set_walk :: "dict \<Rightarrow> string list \<Rightarrow> string \<Rightarrow> json \<Rightarrow> dict" where
  "set_walk cur [] k v = dict_set cur k v"
| "set_walk cur (p # ps) k v =
     (let sub = (case dict_get cur p of Some (JDict kvs) \<Rightarrow> kvs | _ \<Rightarrow> [])
      in dict_set cur p (JDict (set_walk sub ps k v)))"

definition ConfigManager_set :: "dict \<Rightarrow> string \<Rightarrow> json \<Rightarrow> dict" where
  "ConfigManager_set data key_path v =
     (let parts = split_on CHR ''.'' key_path
      in set_walk data (butlast parts) (last parts) v)"

text \<open>
  The claim's reading of a failed lookup: walking the path from the top, some segment is
  not a key of the value reached, or the value reached is not a dictionary.
\<close>

fun path_broken :: "json \<Rightarrow> string list \<Rightarrow> bool" where
  "path_broken cur [] = False"
| "path_broken (JDict kvs) (p # ps) =
     (case dict_get kvs p of None \<Rightarrow> True | Some v \<Rightarrow> path_broken v ps)"
| "path_broken _ (p # ps) = True"

text \<open>The module constant \<^verbatim>\<open>DEFAULT_CONFIG\<close>.\<close>

definition default_api_keys :: dict where
  "default_api_keys = [(''openweathermap'', JStr ''''), (''newsapi'', JStr ''''), (''openai'', JStr '''')]"

definition default_favorites :: dict where
  "default_favorites = [(''music'', JList []), (''websites'', JList [])]"

definition DEFAULT_CONFIG :: dict where
  "DEFAULT_CONFIG =
     [(''user_name'', JStr ''User''),
      (''city'', JStr ''New York''),
      (''theme'', JStr ''Dark''),
      (''font_size'', JInt 16),
      (''voice_rate'', JInt 150),
      (''voice_volume'', JFloat 1),
      (''api_keys'', JDict default_api_keys),
      (''favorites'', JDict default_favorites),
      (''emergency_contacts'', JList []),
      (''medication_schedule'', JDict [])]"

text \<open>
  What \<^verbatim>\<open>_load\<close> finds on disk: no file, a file that \<^verbatim>\<open>open\<close> or
  \<^verbatim>\<open>json.load\<close> rejects with an exception, or a file holding a JSON value.
\<close>

datatype config_file = NoFile | Unreadable error | Loaded json

text \<open>
  \<^verbatim>\<open>merged.update(loaded)\<close>. A dictionary argument is merged key by key. Any other
  argument is iterated as a sequence of key/value pairs: a number, a boolean or
  \<^verbatim>\<open>None\<close> is not iterable (TypeError); the characters of a non-empty string are not
  pairs (ValueError); an element of a list is a pair when it is a two-element list, a
  two-character string or a dictionary with two keys, and its key must be hashable.
  Dictionaries of this theory record string keys only: a pair whose key is a number, a
  boolean or \<^verbatim>\<open>None\<close> adds an entry that no string lookup can see, and is left out.
\<close>

fun pair_of :: "json \<Rightarrow> error + (string \<times> json) option" where
  "pair_of (JList [JStr k, v]) = Inr (Some (k, v))"
| "pair_of (JList [JList _, v]) = Inl TypeError"
| "pair_of (JList [JDict _, v]) = Inl TypeError"
| "pair_of (JList [_, v]) = Inr None"
| "pair_of (JList _) = Inl ValueError"
| "pair_of (JStr [a, b]) = Inr (Some ([a], JStr [b]))"
| "pair_of (JStr _) = Inl ValueError"
| "pair_of (JDict [(k1, _), (k2, _)]) = Inr (Some (k1, JStr k2))"
| "pair_of (JDict _) = Inl ValueError"
| "pair_of _ = Inl TypeError"

fun update_pairs :: "dict \<Rightarrow> json list \<Rightarrow> error + dict" where
  "update_pairs merged [] = Inr merged"
| "update_pairs merged (x # xs) =
     (case pair_of x of
        Inl e \<Rightarrow> Inl e
      | Inr None \<Rightarrow> update_pairs merged xs
      | Inr (Some (k, v)) \<Rightarrow> update_pairs (dict_set merged k v) xs)"

fun update_items :: "dict \<Rightarrow> (string \<times> json) list \<Rightarrow> dict" where
  "update_items merged [] = merged"
| "update_items merged ((k, v) # kvs) = update_items (dict_set merged k v) kvs"

fun dict_update :: "dict \<Rightarrow> json \<Rightarrow> error + dict" where
  "dict_update merged (JDict kvs) = Inr (update_items merged kvs)"
| "dict_update merged (JList xs) = update_pairs merged xs"
| "dict_update merged (JStr s) = (if s = [] then Inr merged else Inl ValueError)"
| "dict_update merged _ = Inl TypeError"

text \<open>\<^verbatim>\<open>d.setdefault(k, v)\<close>, and the loop of \<^verbatim>\<open>_load\<close> that applies it.\<close>

definition dict_setdefault :: "dict \<Rightarrow> string \<Rightarrow> json \<Rightarrow> dict" where
  "dict_setdefault d k v = (case dict_get d k of None \<Rightarrow> dict_set d k v | Some _ \<Rightarrow> d)"

fun setdefault_items :: "dict \<Rightarrow> (string \<times> json) list \<Rightarrow> dict" where
  "setdefault_items d [] = d"
| "setdefault_items d ((k, v) # kvs) = setdefault_items (dict_setdefault d k v) kvs"

text \<open>
  The body of the \<^verbatim>\<open>try\<close> of \<^verbatim>\<open>_load\<close>, after \<^verbatim>\<open>json.load\<close>. The entry under
  \<^verbatim>\<open>api_keys\<close> must have a \<^verbatim>\<open>setdefault\<close> method: only a dictionary has one.
\<close>

definition ensure_api_keys :: "dict \<Rightarrow> error + dict" where
  "ensure_api_keys merged =
     (case dict_get merged ''api_keys'' of
        None \<Rightarrow> Inr (dict_set merged ''api_keys'' (JDict default_api_keys))
      | Some (JDict a) \<Rightarrow>
          Inr (dict_set merged ''api_keys'' (JDict (setdefault_items a default_api_keys)))
      | Some _ \<Rightarrow> Inl AttributeError)"

definition ensure_key :: "dict \<Rightarrow> string \<Rightarrow> json \<Rightarrow> dict" where
  "ensure_key merged k v = (if dict_get merged k = None then dict_set merged k v else merged)"

definition load_merge :: "json \<Rightarrow> error + dict" where
  "load_merge loaded =
     (case dict_update DEFAULT_CONFIG loaded of
        Inl e \<Rightarrow> Inl e
      | Inr merged \<Rightarrow>
          (case ensure_api_keys merged of
             Inl e \<Rightarrow> Inl e
           | Inr m1 \<Rightarrow>
               Inr (ensure_key
                     (ensure_key
                       (ensure_key m1 ''favorites'' (JDict default_favorites))
                       ''medication_schedule'' (JDict []))
                     ''emergency_contacts'' (JList []))))"

text \<open>
  \<^verbatim>\<open>ConfigManager._load\<close>: every exception inside the \<^verbatim>\<open>try\<close> is caught and the
  function falls through to \<^verbatim>\<open>return DEFAULT_CONFIG.copy()\<close>.
\<close>

definition ConfigManager_load :: "config_file \<Rightarrow> dict" where
  "ConfigManager_load f =
     (case f of
        NoFile \<Rightarrow> DEFAULT_CONFIG
      | Unreadable e \<Rightarrow> DEFAULT_CONFIG
      | Loaded loaded \<Rightarrow>
          (case load_merge loaded of
             Inl e \<Rightarrow> DEFAULT_CONFIG
           | Inr merged \<Rightarrow> merged))"

text \<open>\<^verbatim>\<open>k in d\<close> for every key of a list.\<close>

definition has_keys :: "dict \<Rightarrow> string list \<Rightarrow> bool" where
  "has_keys d ks = list_all (\<lambda>k. dict_get d k \<noteq> None) ks"

definition has_key :: "dict \<Rightarrow> string \<Rightarrow> bool" where
  "has_key d k = (dict_get d k \<noteq> None)"

section \<open>Python strings and conversions\<close>

text \<open>
  The string methods the program calls, on ASCII text: \<^verbatim>\<open>strip\<close> removes the ASCII
  whitespace characters (codes 9 to 13 and 28 to 32) at both ends, \<^verbatim>\<open>lower\<close> maps
  \<^verbatim>\<open>A\<close>..\<^verbatim>\<open>Z\<close> to \<^verbatim>\<open>a\<close>..\<^verbatim>\<open>z\<close>, \<^verbatim>\<open>p in s\<close> is the substring test.
\<close>

definition is_space :: "char \<Rightarrow> bool" where
  "is_space c = (let n = (of_char c :: nat) in (9 \<le> n \<and> n \<le> 13) \<or> (28 \<le> n \<and> n \<le> 32))"

definition py_strip :: "string \<Rightarrow> string" where
  "py_strip s = rev (dropWhile is_space (rev (dropWhile is_space s)))"

definition lower_char :: "char \<Rightarrow> char" where
  "lower_char c = (let n = (of_char c :: nat) in if 65 \<le> n \<and> n \<le> 90 then char_of (n + 32) else c)"

definition upper_char :: "char \<Rightarrow> char" where
  "upper_char c = (let n = (of_char c :: nat) in if 97 \<le> n \<and> n \<le> 122 then char_of (n - 32) else c)"

definition py_lower :: "string \<Rightarrow> string" where
  "py_lower s = map lower_char s"

definition py_capitalize :: "string \<Rightarrow> string" where
  "py_capitalize s = (case s of [] \<Rightarrow> [] | c # cs \<Rightarrow> upper_char c # map lower_char cs)"

definition startswith :: "string \<Rightarrow> string \<Rightarrow> bool" where
  "startswith s p = (take (length p) s = p)"

text \<open>\<^verbatim>\<open>p in s\<close>.\<close>

fun is_substr :: "string \<Rightarrow> string \<Rightarrow> bool" where
  "is_substr p [] = (p = [])"
| "is_substr p (c # cs) = (startswith (c # cs) p \<or> is_substr p cs)"

text \<open>\<^verbatim>\<open>s.replace(old, new)\<close> for a non-empty \<^verbatim>\<open>old\<close>: leftmost occurrences, not overlapping.\<close>

fun replace_all :: "string \<Rightarrow> string \<Rightarrow> string \<Rightarrow> string" where
  "replace_all old new [] = []"
| "replace_all old new (c # cs) =
     (if old \<noteq> [] \<and> startswith (c # cs) old
      then new @ replace_all old new (drop (length old - 1) cs)
      else c # replace_all old new cs)"

text \<open>\<^verbatim>\<open>sep.join(parts)\<close>.\<close>

fun join :: "string \<Rightarrow> string list \<Rightarrow> string" where
  "join sep [] = []"
| "join sep [x] = x"
| "join sep (x # y # ys) = x @ sep @ join sep (y # ys)"

text \<open>\<^verbatim>\<open>str(n)\<close> for an integer.\<close>

definition digit_char :: "nat \<Rightarrow> char" where
  "digit_char d = char_of (48 + d)"

fun show_nat :: "nat \<Rightarrow> string" where
  "show_nat n = (if n < 10 then [digit_char n] else show_nat (n div 10) @ [digit_char (n mod 10)])"

definition show_int :: "int \<Rightarrow> string" where
  "show_int i = (if i < 0 then CHR ''-'' # show_nat (nat (- i)) else show_nat (nat i))"

text \<open>
  \<^verbatim>\<open>int(s)\<close> for a string: surrounding whitespace is ignored, then an optional sign and
  decimal digits, where single underscores may separate groups of digits.
\<close>

definition is_digit :: "char \<Rightarrow> bool" where
  "is_digit c = (let n = (of_char c :: nat) in 48 \<le> n \<and> n \<le> 57)"

definition digits_value :: "string \<Rightarrow> nat" where
  "digits_value ds = foldl (\<lambda>acc c. 10 * acc + (of_char c - 48)) 0 ds"

definition parse_digits :: "string \<Rightarrow> nat option" where
  "parse_digits body =
     (let groups = split_on CHR ''_'' body
      in if list_all (\<lambda>g. g \<noteq> [] \<and> list_all is_digit g) groups
         then Some (digits_value (concat groups))
         else None)"

definition int_of_str :: "string \<Rightarrow> int option" where
  "int_of_str s =
     (case py_strip s of
        CHR ''-'' # body \<Rightarrow> map_option (\<lambda>n. - int n) (parse_digits body)
      | CHR ''+'' # body \<Rightarrow> map_option int (parse_digits body)
      | body \<Rightarrow> map_option int (parse_digits body))"

text \<open>\<^verbatim>\<open>int(v)\<close> for a value of the configuration: a float is truncated towards zero.\<close>

definition py_int :: "json \<Rightarrow> error + int" where
  "py_int v =
     (case v of
        JInt n \<Rightarrow> Inr n
      | JBool b \<Rightarrow> Inr (if b then 1 else 0)
      | JFloat r \<Rightarrow> Inr (if 0 \<le> r then \<lfloor>r\<rfloor> else \<lceil>r\<rceil>)
      | JStr s \<Rightarrow> (case int_of_str s of Some n \<Rightarrow> Inr n | None \<Rightarrow> Inl ValueError)
      | _ \<Rightarrow> Inl TypeError)"

text \<open>Truth value of an object, as \<^verbatim>\<open>if x:\<close> and \<^verbatim>\<open>x or y\<close> take it.\<close>

definition py_truthy :: "json \<Rightarrow> bool" where
  "py_truthy v =
     (case v of
        JNull \<Rightarrow> False
      | JBool b \<Rightarrow> b
      | JInt n \<Rightarrow> n \<noteq> 0
      | JFloat r \<Rightarrow> r \<noteq> 0
      | JStr s \<Rightarrow> s \<noteq> []
      | JList xs \<Rightarrow> xs \<noteq> []
      | JDict kvs \<Rightarrow> kvs \<noteq> [])"

text \<open>
  \<^verbatim>\<open>for x in v\<close>: the elements of a list, the characters of a string, the keys of a
  dictionary; anything else is not iterable.
\<close>

definition py_iter :: "json \<Rightarrow> error + json list" where
  "py_iter v =
     (case v of
        JList xs \<Rightarrow> Inr xs
      | JStr s \<Rightarrow> Inr (map (\<lambda>c. JStr [c]) s)
      | JDict kvs \<Rightarrow> Inr (map (\<lambda>kv. JStr (fst kv)) kvs)
      | _ \<Rightarrow> Inl TypeError)"

text \<open>
  \<^verbatim>\<open>v.items()\<close>: only a dictionary has the method.
\<close>

definition py_items :: "json \<Rightarrow> error + (string \<times> json) list" where
  "py_items v = (case v of JDict kvs \<Rightarrow> Inr kvs | _ \<Rightarrow> Inl AttributeError)"

text \<open>
  \<^verbatim>\<open>str(v)\<close>, as an f-string formats a value. The text of a float and of a container
  (which quotes and escapes its elements) is left to \<open>repr\<close>, a parameter.
\<close>

definition py_str :: "(json \<Rightarrow> string) \<Rightarrow> json \<Rightarrow> string" where
  "py_str repr v =
     (case v of
        JStr s \<Rightarrow> s
      | JNull \<Rightarrow> ''None''
      | JBool b \<Rightarrow> (if b then ''True'' else ''False'')
      | JInt n \<Rightarrow> show_int n
      | _ \<Rightarrow> repr v)"

text \<open>
  The time of a medication entry: \<^verbatim>\<open>hh, mm = [int(x) for x in tstr.strip().split(":")]\<close>
  and then \<^verbatim>\<open>now.replace(hour=hh, minute=mm, ...)\<close>, which rejects an hour outside
  0..23 and a minute outside 0..59. Only a string has \<^verbatim>\<open>strip\<close>.
\<close>

fun ints_of_parts :: "string list \<Rightarrow> int list option" where
  "ints_of_parts [] = Some []"
| "ints_of_parts (p # ps) =
     (case int_of_str p of
        None \<Rightarrow> None
      | Some n \<Rightarrow> map_option ((#) n) (ints_of_parts ps))"

definition parse_hhmm :: "json \<Rightarrow> error + (nat \<times> nat)" where
  "parse_hhmm tstr =
     (case tstr of
        JStr s \<Rightarrow>
          (case ints_of_parts (split_on CHR '':'' (py_strip s)) of
             Some [hh, mm] \<Rightarrow>
               (if 0 \<le> hh \<and> hh \<le> 23 \<and> 0 \<le> mm \<and> mm \<le> 59
                then Inr (nat hh, nat mm) else Inl ValueError)
           | _ \<Rightarrow> Inl ValueError)
      | _ \<Rightarrow> Inl AttributeError)"

section \<open>The application state\<close>

text \<open>
  An element of a tuple on the GUI queue is a value or a widget (named by the attribute
  that holds it). A tuple is the list of its elements.
\<close>

datatype pyobj = Val json | Widget string

type_synonym item = "pyobj list"

text \<open>The callbacks the program hands to \<^verbatim>\<open>self.after\<close>.\<close>

datatype callback =
    ProcessGuiQueue
  | TriggerMedication string json
  | OnClose

text \<open>
  The calls of the widget toolkit: those made when the GUI queue is drained, and the
  change of a widget's font when the settings are applied.
\<close>

datatype tk_call =
    TextboxState string
  | TextboxInsert string
  | TextboxSee
  | StatusSet pyobj
  | Configure string pyobj
  | ConfigureFont string int
  | ShowError pyobj
  | ShowInfo pyobj

text \<open>
  What the program does to the outside, in the order it does it: a call of
  \<^verbatim>\<open>speak\<close> (which starts a speech thread), the start of a listening or command
  thread, an HTTP request, a call of the chat completion or of the encyclopedia, the
  browser, a toolkit call.
\<close>

datatype effect =
    Speak json bool
  | StartListenThread
  | StartCommandThread string
  | HttpGet string dict
  | ChatCompletion string
  | WikipediaSummary string
  | BrowserOpen string
  | Tk tk_call

record app =
  config :: dict
  gui_queue :: "item list"
  listening_event :: bool
  med_after_ids :: "nat list"
  timers :: "(nat \<times> nat \<times> callback) list"
  next_after_id :: nat
  effects :: "effect list"
  openai_api_key :: json
  font_size :: int
  disk :: config_file

text \<open>
  A method that may raise returns \<open>Inl\<close> with the exception and the state it leaves
  behind, or \<open>Inr\<close> with its result and the state.
\<close>

type_synonym 'a outcome = "(error \<times> app) + ('a \<times> app)"

text \<open>
  What the program takes from outside: the clock, the random generator, the network,
  the text of an exception, the formatting of floats and containers, the failures of
  the toolkit and of the file system (whether writing the configuration file raises, and
  what a failed write leaves of the file). Two methods of the application that no property
  below looks into, \<^verbatim>\<open>play_music_from_favorites\<close> and \<^verbatim>\<open>add_reminder\<close>, are taken
  as given state transformers.
\<close>

record env =
  repr_of :: "json \<Rightarrow> string"
  exc_text :: "error \<Rightarrow> string"
  clock_time :: string
  clock_date :: string
  now_us :: nat
  ms_of_us :: "nat \<Rightarrow> nat"
  random_index :: nat
  http_get :: "string \<Rightarrow> dict \<Rightarrow> error + json"
  chat_completion :: "string \<Rightarrow> error + string"
  wikipedia_summary :: "string \<Rightarrow> error + string"
  browser_raises :: "string \<Rightarrow> error option"
  tk_raises :: "tk_call \<Rightarrow> error option"
  write_raises :: "error option"
  partial_write :: "config_file \<Rightarrow> config_file"
  play_music_from_favorites :: "app \<Rightarrow> unit outcome"
  add_reminder :: "string \<Rightarrow> app \<Rightarrow> json outcome"

text \<open>\<^verbatim>\<open>self.gui_queue.put(item)\<close>, and the tuples the program puts.\<close>

definition put :: "item \<Rightarrow> app \<Rightarrow> app" where
  "put it st = st\<lparr>gui_queue := gui_queue st @ [it]\<rparr>"

definition append_item :: "string \<Rightarrow> json \<Rightarrow> item" where
  "append_item tag text = [Val (JStr ''append''), Val (JStr tag), Val text]"

definition status_item :: "string \<Rightarrow> item" where
  "status_item s = [Val (JStr ''status''), Val (JStr s)]"

definition button_item :: "string \<Rightarrow> string \<Rightarrow> item" where
  "button_item w text = [Val (JStr ''button''), Widget w, Val (JStr text)]"

definition error_popup_item :: "string \<Rightarrow> item" where
  "error_popup_item msg = [Val (JStr ''error_popup''), Val (JStr msg)]"

text \<open>\<^verbatim>\<open>self.speak(text, interrupt)\<close> only starts a thread.\<close>

definition speak :: "json \<Rightarrow> bool \<Rightarrow> app \<Rightarrow> app" where
  "speak text interrupt st = st\<lparr>effects := effects st @ [Speak text interrupt]\<rparr>"

text \<open>\<^verbatim>\<open>self.after(ms, callback)\<close>: a new pending timer; its id is returned.\<close>

definition after :: "nat \<Rightarrow> callback \<Rightarrow> app \<Rightarrow> nat \<times> app" where
  "after ms cb st =
     (next_after_id st,
      st\<lparr>timers := timers st @ [(next_after_id st, ms, cb)],
         next_after_id := Suc (next_after_id st)\<rparr>)"

text \<open>\<^verbatim>\<open>self.after_cancel(id)\<close>: the timer, if still pending, is dropped.\<close>

definition after_cancel :: "nat \<Rightarrow> app \<Rightarrow> app" where
  "after_cancel i st = st\<lparr>timers := filter (\<lambda>t. fst t \<noteq> i) (timers st)\<rparr>"

section \<open>Weather and news\<close>

definition and_then :: "error + 'a \<Rightarrow> ('a \<Rightarrow> error + 'b) \<Rightarrow> error + 'b" where
  "and_then r f = (case r of Inl e \<Rightarrow> Inl e | Inr x \<Rightarrow> f x)"

text \<open>\<^verbatim>\<open>v[k]\<close> for a string key, \<^verbatim>\<open>v[i]\<close> for an integer index, \<^verbatim>\<open>v.get(k, d)\<close>.\<close>

definition subscript_key :: "json \<Rightarrow> string \<Rightarrow> error + json" where
  "subscript_key v k =
     (case v of
        JDict kvs \<Rightarrow> (case dict_get kvs k of Some x \<Rightarrow> Inr x | None \<Rightarrow> Inl KeyError)
      | _ \<Rightarrow> Inl TypeError)"

definition list_index :: "'a list \<Rightarrow> int \<Rightarrow> error + 'a" where
  "list_index xs i =
     (if 0 \<le> i \<and> i < int (length xs) then Inr (xs ! nat i)
      else if i < 0 \<and> - int (length xs) \<le> i then Inr (xs ! nat (int (length xs) + i))
      else Inl IndexError)"

definition subscript_idx :: "json \<Rightarrow> int \<Rightarrow> error + json" where
  "subscript_idx v i =
     (case v of
        JList xs \<Rightarrow> list_index xs i
      | JStr s \<Rightarrow> list_index (map (\<lambda>c. JStr [c]) s) i
      | JDict kvs \<Rightarrow> Inl KeyError
      | _ \<Rightarrow> Inl TypeError)"

definition method_get :: "json \<Rightarrow> string \<Rightarrow> json \<Rightarrow> error + json" where
  "method_get v k dflt =
     (case v of
        JDict kvs \<Rightarrow> Inr (case dict_get kvs k of Some x \<Rightarrow> x | None \<Rightarrow> dflt)
      | _ \<Rightarrow> Inl AttributeError)"

definition method_capitalize :: "json \<Rightarrow> error + string" where
  "method_capitalize v = (case v of JStr s \<Rightarrow> Inr (py_capitalize s) | _ \<Rightarrow> Inl AttributeError)"

definition WEATHER_URL :: string where
  "WEATHER_URL = ''http://api.openweathermap.org/data/2.5/weather''"

definition NEWS_URL :: string where
  "NEWS_URL = ''https://newsapi.org/v2/top-headlines''"

text \<open>The degree sign followed by \<^verbatim>\<open>C\<close>, in UTF-8.\<close>

definition deg_C :: string where
  "deg_C = [CHR 0xC2, CHR 0xB0, CHR ''C'']"

text \<open>
  The body of the \<^verbatim>\<open>try\<close> of \<^verbatim>\<open>get_weather\<close>, from the outcome of the request
  (\<^verbatim>\<open>requests.get\<close>, \<^verbatim>\<open>raise_for_status\<close> and \<^verbatim>\<open>r.json()\<close>) to the sentence.
\<close>

definition weather_text :: "env \<Rightarrow> json \<Rightarrow> error + json \<Rightarrow> error + string" where
  "weather_text env city response =
     and_then response (\<lambda>data.
     and_then (subscript_key data ''main'') (\<lambda>main1.
     and_then (subscript_key main1 ''temp'') (\<lambda>temp.
     and_then (subscript_key data ''weather'') (\<lambda>w.
     and_then (subscript_idx w 0) (\<lambda>w0.
     and_then (subscript_key w0 ''description'') (\<lambda>d.
     and_then (method_capitalize d) (\<lambda>desc.
     and_then (subscript_key data ''main'') (\<lambda>main2.
     and_then (method_get main2 ''feels_like'' JNull) (\<lambda>feels.
       Inr (''The weather in '' @ py_str (repr_of env) city @ '' is '' @ desc @ '', ''
            @ py_str (repr_of env) temp @ deg_C @ '' (feels like ''
            @ py_str (repr_of env) feels @ deg_C @ '').''))))))))))"

text \<open>
  \<^verbatim>\<open>get_weather\<close>: the sentence returned, and the HTTP requests made on the way.
\<close>

definition weather_params :: "json \<Rightarrow> json \<Rightarrow> dict" where
  "weather_params city api_key = [(''q'', city), (''appid'', api_key), (''units'', JStr ''metric'')]"

text \<open>\<^verbatim>\<open>self.config.get("city", "New York")\<close>.\<close>

definition config_city :: "dict \<Rightarrow> json" where
  "config_city cfg = (case dict_get cfg ''city'' of Some c \<Rightarrow> c | None \<Rightarrow> JStr ''New York'')"

definition get_weather :: "env \<Rightarrow> dict \<Rightarrow> string \<times> (string \<times> dict) list" where
  "get_weather env cfg =
     (let api_key = ConfigManager_get cfg ''api_keys.openweathermap'' (JStr '''');
          city = config_city cfg
      in if \<not> py_truthy api_key
         then (''Weather API key not configured. Please add it in Settings.'', [])
         else (case weather_text env city (http_get env WEATHER_URL (weather_params city api_key)) of
                 Inr s \<Rightarrow> (s, [(WEATHER_URL, weather_params city api_key)])
               | Inl e \<Rightarrow> (''Could not fetch weather: '' @ exc_text env e,
                           [(WEATHER_URL, weather_params city api_key)])))"

text \<open>
  The headlines of \<^verbatim>\<open>get_news\<close>: \<^verbatim>\<open>f"{i+1}. {a.get('title','No title')}"\<close> for each
  article, numbered from 1.
\<close>

fun headlines :: "env \<Rightarrow> nat \<Rightarrow> json list \<Rightarrow> error + string list" where
  "headlines env i [] = Inr []"
| "headlines env i (a # as) =
     and_then (method_get a ''title'' (JStr ''No title'')) (\<lambda>title.
     and_then (headlines env (Suc i) as) (\<lambda>rest.
       Inr ((show_nat (Suc i) @ ''. '' @ py_str (repr_of env) title) # rest)))"

definition news_text :: "env \<Rightarrow> error + json \<Rightarrow> error + string" where
  "news_text env response =
     and_then response (\<lambda>body.
     and_then (method_get body ''articles'' (JList [])) (\<lambda>articles.
       if \<not> py_truthy articles then Inr ''No headlines available right now.''
       else
         and_then (py_iter articles) (\<lambda>as.
         and_then (headlines env 0 as) (\<lambda>hs.
           Inr (''Top headlines:'' @ [CHR 0x0A] @ join [CHR 0x0A] hs)))))"

definition news_params :: "json \<Rightarrow> dict" where
  "news_params api_key = [(''country'', JStr ''us''), (''apiKey'', api_key), (''pageSize'', JInt 3)]"

definition get_news :: "env \<Rightarrow> dict \<Rightarrow> string \<times> (string \<times> dict) list" where
  "get_news env cfg =
     (let api_key = ConfigManager_get cfg ''api_keys.newsapi'' (JStr '''')
      in if \<not> py_truthy api_key
         then (''News API key not configured. Please add it in Settings.'', [])
         else (case news_text env (http_get env NEWS_URL (news_params api_key)) of
                 Inr s \<Rightarrow> (s, [(NEWS_URL, news_params api_key)])
               | Inl e \<Rightarrow> (''Could not fetch news: '' @ exc_text env e,
                           [(NEWS_URL, news_params api_key)])))"

section \<open>Handlers\<close>

text \<open>\<^verbatim>\<open>emergency_protocol\<close>: the alert, then one simulated call per contact.\<close>

fun simulate_calls :: "env \<Rightarrow> json list \<Rightarrow> app \<Rightarrow> unit outcome" where
  "simulate_calls env [] st = Inr ((), st)"
| "simulate_calls env (c # cs) st =
     (case method_get c ''name'' (JStr ''Unknown'') of
        Inl e \<Rightarrow> Inl (e, st)
      | Inr name \<Rightarrow>
          (case method_get c ''phone'' (JStr ''Unknown'') of
             Inl e \<Rightarrow> Inl (e, st)
           | Inr phone \<Rightarrow>
               simulate_calls env cs
                 (put (append_item ''system''
                        (JStr (''Simulating call to '' @ py_str (repr_of env) name @ '' (''
                               @ py_str (repr_of env) phone @ '')...''))) st)))"

definition emergency_protocol :: "env \<Rightarrow> app \<Rightarrow> unit outcome" where
  "emergency_protocol env st =
     (let st1 = speak (JStr ''Emergency! Assistance requested!'') True
                  (put (append_item ''emergency''
                         (JStr ''Emergency assistance requested! Contacting emergency contacts...'')) st);
          found = ConfigManager_get (config st1) ''emergency_contacts'' (JList []);
          contacts = (if py_truthy found then found else JList [])
      in if \<not> py_truthy contacts
         then Inr ((), put (append_item ''assistant''
                 (JStr ''No emergency contacts configured. Please add them in Settings.'')) st1)
         else (case py_iter contacts of
                 Inl e \<Rightarrow> Inl (e, st1)
               | Inr cs \<Rightarrow> simulate_calls env cs st1))"

text \<open>
  \<^verbatim>\<open>show_medication_schedule\<close>: \<^verbatim>\<open>', '.join(times)\<close> wants an iterable of strings.
  With no schedule the method returns \<^verbatim>\<open>None\<close>.
\<close>

fun strings_of :: "json list \<Rightarrow> error + string list" where
  "strings_of [] = Inr []"
| "strings_of (JStr s # xs) = and_then (strings_of xs) (\<lambda>ss. Inr (s # ss))"
| "strings_of (_ # xs) = Inl TypeError"

definition method_join :: "string \<Rightarrow> json \<Rightarrow> error + string" where
  "method_join sep v = and_then (py_iter v) (\<lambda>xs. and_then (strings_of xs) (\<lambda>ss. Inr (join sep ss)))"

fun schedule_lines :: "(string \<times> json) list \<Rightarrow> error + string list" where
  "schedule_lines [] = Inr []"
| "schedule_lines ((med, tms) # rest) =
     and_then (method_join '', '' tms) (\<lambda>joined.
     and_then (schedule_lines rest) (\<lambda>ls. Inr (('' - '' @ med @ '': '' @ joined) # ls)))"

definition show_medication_schedule :: "env \<Rightarrow> app \<Rightarrow> json outcome" where
  "show_medication_schedule env st =
     (let found = ConfigManager_get (config st) ''medication_schedule'' (JDict []);
          schedule = (if py_truthy found then found else JDict [])
      in if \<not> py_truthy schedule
         then Inr (JNull, put (append_item ''assistant''
                 (JStr ''You don't have any medications scheduled. Add them in Settings.'')) st)
         else (case and_then (py_items schedule) schedule_lines of
                 Inl e \<Rightarrow> Inl (e, st)
               | Inr ls \<Rightarrow>
                   (let text = join [CHR 0x0A] (''Your medication schedule:'' # ls)
                    in Inr (JStr text, put (append_item ''assistant'' (JStr text)) st))))"

text \<open>\<^verbatim>\<open>get_joke\<close>: \<^verbatim>\<open>random.choice\<close> among three jokes.\<close>

definition jokes :: "string list" where
  "jokes =
     [''Why don't scientists trust atoms? Because they make up everything.'',
      ''I told my wife she drew her eyebrows too high. She looked surprised.'',
      ''What do you call a fake noodle? An impasta!'']"

definition get_joke :: "env \<Rightarrow> string" where
  "get_joke env = jokes ! (random_index env mod length jokes)"

text \<open>
  \<^verbatim>\<open>get_ai_response\<close>: the content of the first choice of the chat completion,
  stripped; any exception of the call or of reading the response is raised again.
\<close>

definition get_ai_response :: "env \<Rightarrow> string \<Rightarrow> error + string" where
  "get_ai_response env prompt =
     (case chat_completion env prompt of
        Inl e \<Rightarrow> Inl e
      | Inr content \<Rightarrow> Inr (py_strip content))"

section \<open>The command router\<close>

datatype branch =
    Emergency | Time | Date | Weather | News | Joke | PlayMusic | Reminder
  | Medication | Open | Exit | Fallback

text \<open>\<^verbatim>\<open>any(k in cmd for k in ks)\<close>.\<close>

definition any_in :: "string list \<Rightarrow> string \<Rightarrow> bool" where
  "any_in ks cmd = list_ex (\<lambda>k. is_substr k cmd) ks"

text \<open>
  The conditions of \<^verbatim>\<open>_do_command\<close>, in the order of the source. Every body ends in
  \<^verbatim>\<open>return\<close>, so the first condition that holds names the only body that runs.
\<close>

definition route :: "string \<Rightarrow> branch" where
  "route cmd =
     (if any_in [''help'', ''emergency'', ''accident'', ''fall'', ''ambulance''] cmd then Emergency
      else if is_substr ''time'' cmd then Time
      else if is_substr ''date'' cmd then Date
      else if is_substr ''weather'' cmd then Weather
      else if is_substr ''news'' cmd then News
      else if is_substr ''joke'' cmd then Joke
      else if is_substr ''play music'' cmd \<or> is_substr ''play song'' cmd then PlayMusic
      else if is_substr ''remind me'' cmd \<or> is_substr ''reminder'' cmd then Reminder
      else if is_substr ''medication'' cmd \<or> is_substr ''pill'' cmd \<or> is_substr ''medicine'' cmd
        then Medication
      else if is_substr ''open'' cmd
              \<and> (is_substr ''http'' cmd \<or> is_substr ''.'' cmd \<or> is_substr ''website'' cmd)
        then Open
      else if any_in [''exit'', ''quit'', ''goodbye''] cmd then Exit
      else Fallback)"

text \<open>The target of the \<^verbatim>\<open>open\<close> command, computed from the raw command.\<close>

definition open_target :: "string \<Rightarrow> string" where
  "open_target command =
     (let t = py_strip (replace_all ''open'' '''' command)
      in if startswith t ''http'' then t
         else (let t2 = (if is_substr ''website'' t
                         then py_strip (replace_all ''website'' '''' t) else t)
               in if startswith t2 ''http'' then t2 else ''https://'' @ t2))"

text \<open>
  The tail of \<^verbatim>\<open>_do_command\<close>, reached when no keyword matched: the chat completion
  when a key is configured, then the encyclopedia, then the apology. Each \<^verbatim>\<open>try\<close>
  catches every exception of its body.
\<close>

definition fallback :: "env \<Rightarrow> string \<Rightarrow> app \<Rightarrow> app" where
  "fallback env command st =
     (let openai_key = ConfigManager_get (config st) ''api_keys.openai'' (JStr '''');
          tried =
            (if py_truthy openai_key
             then (let st1 = st\<lparr>openai_api_key := openai_key,
                                effects := effects st @ [ChatCompletion command]\<rparr>
                   in case get_ai_response env command of
                        Inr resp_text \<Rightarrow>
                          Inr (speak (JStr resp_text) False
                                 (put (append_item ''assistant'' (JStr resp_text)) st1))
                      | Inl e \<Rightarrow> Inl st1)
             else Inl st)
      in case tried of
           Inr finished \<Rightarrow> finished
         | Inl st2 \<Rightarrow>
             (let st3 = st2\<lparr>effects := effects st2 @ [WikipediaSummary command]\<rparr>
              in case wikipedia_summary env command of
                   Inr wiki_resp \<Rightarrow>
                     speak (JStr wiki_resp) False
                       (put (append_item ''assistant'' (JStr wiki_resp)) st3)
                 | Inl e \<Rightarrow>
                     speak (JStr ''Sorry, I couldn't find an answer to that.'') False
                       (put (append_item ''assistant''
                              (JStr ''Sorry, I couldn't find an answer.'')) st3)))"

text \<open>The bodies of the branches of \<^verbatim>\<open>_do_command\<close>.\<close>

definition say :: "json \<Rightarrow> json \<Rightarrow> app \<Rightarrow> app" where
  "say shown spoken st = speak spoken False (put (append_item ''assistant'' shown) st)"

definition log_requests :: "(string \<times> dict) list \<Rightarrow> app \<Rightarrow> app" where
  "log_requests reqs st = st\<lparr>effects := effects st @ map (\<lambda>r. HttpGet (fst r) (snd r)) reqs\<rparr>"

definition run_branch :: "env \<Rightarrow> branch \<Rightarrow> string \<Rightarrow> string \<Rightarrow> app \<Rightarrow> unit outcome" where
  "run_branch env b command cmd st =
     (case b of
        Emergency \<Rightarrow>
          emergency_protocol env
            (put (append_item ''assistant'' (JStr ''Triggering emergency protocol.'')) st)
      | Time \<Rightarrow>
          (let resp = JStr (''The time is '' @ clock_time env @ ''.'')
           in Inr ((), say resp resp st))
      | Date \<Rightarrow>
          (let resp = JStr (''Today is '' @ clock_date env @ ''.'')
           in Inr ((), say resp resp st))
      | Weather \<Rightarrow>
          (let r = get_weather env (config st)
           in Inr ((), say (JStr (fst r)) (JStr (fst r)) (log_requests (snd r) st)))
      | News \<Rightarrow>
          (let r = get_news env (config st)
           in Inr ((), say (JStr (fst r)) (JStr ''Here are the top headlines.'')
                         (log_requests (snd r) st)))
      | Joke \<Rightarrow>
          (let resp = JStr (get_joke env) in Inr ((), say resp resp st))
      | PlayMusic \<Rightarrow>
          (case play_music_from_favorites env st of
             Inl failed \<Rightarrow> Inl failed
           | Inr (u, st1) \<Rightarrow>
               Inr ((), put (append_item ''assistant'' (JStr ''Playing music from favorites.'')) st1))
      | Reminder \<Rightarrow>
          (case add_reminder env cmd st of
             Inl failed \<Rightarrow> Inl failed
           | Inr (resp, st1) \<Rightarrow> Inr ((), say resp resp st1))
      | Medication \<Rightarrow>
          (case show_medication_schedule env st of
             Inl failed \<Rightarrow> Inl failed
           | Inr (resp, st1) \<Rightarrow> Inr ((), say resp resp st1))
      | Open \<Rightarrow>
          (let target = open_target command;
               st1 = st\<lparr>effects := effects st @ [BrowserOpen target]\<rparr>
           in case browser_raises env target of
                Some e \<Rightarrow> Inl (e, st1)
              | None \<Rightarrow> Inr ((), put (append_item ''assistant'' (JStr (''Opening '' @ target))) st1))
      | Exit \<Rightarrow>
          Inr ((), snd (after 800 OnClose (say (JStr ''Goodbye!'') (JStr ''Goodbye!'') st)))
      | Fallback \<Rightarrow> Inr ((), fallback env command st))"

text \<open>
  The outer \<^verbatim>\<open>except Exception\<close> of \<^verbatim>\<open>_do_command\<close>: an exception of the
  branch that ran becomes a message on the queue.
\<close>

definition on_exception :: "env \<Rightarrow> unit outcome \<Rightarrow> app" where
  "on_exception env r =
     (case r of
        Inl (e, st1) \<Rightarrow>
          put (append_item ''assistant'' (JStr (''An error occurred: '' @ exc_text env e))) st1
      | Inr (u, st1) \<Rightarrow> st1)"

text \<open>
  \<^verbatim>\<open>_do_command\<close>: the command is lowercased and stripped, and one branch runs.
\<close>

definition do_command :: "env \<Rightarrow> string \<Rightarrow> app \<Rightarrow> app" where
  "do_command env command st =
     (let cmd = py_strip (py_lower command)
      in on_exception env (run_branch env (route cmd) command cmd st))"

text \<open>
  The state a call leaves behind, whether it returned or raised; and what a step added
  to the log of effects and to the GUI queue.
\<close>

definition state_of :: "'a outcome \<Rightarrow> app" where
  "state_of r = (case r of Inl (e, s) \<Rightarrow> s | Inr (x, s) \<Rightarrow> s)"

definition new_effects :: "app \<Rightarrow> app \<Rightarrow> effect list" where
  "new_effects st st' = drop (length (effects st)) (effects st')"

definition new_items :: "app \<Rightarrow> app \<Rightarrow> item list" where
  "new_items st st' = drop (length (gui_queue st)) (gui_queue st')"

definition emergency_keywords :: "string list" where
  "emergency_keywords = [''help'', ''emergency'', ''accident'', ''fall'', ''ambulance'']"

text \<open>
  The routing table as the specification words it: the keyword groups in order, each
  with the handler it selects; the \<^verbatim>\<open>open\<close> group also needs one of a second group.
  The first group that matches decides.
\<close>

definition routing_table :: "(string list \<times> string list \<times> branch) list" where
  "routing_table =
     [([''help'', ''emergency'', ''accident'', ''fall'', ''ambulance''], [], Emergency),
      ([''time''], [], Time),
      ([''date''], [], Date),
      ([''weather''], [], Weather),
      ([''news''], [], News),
      ([''joke''], [], Joke),
      ([''play music'', ''play song''], [], PlayMusic),
      ([''remind me'', ''reminder''], [], Reminder),
      ([''medication'', ''pill'', ''medicine''], [], Medication),
      ([''open''], [''http'', ''.'', ''website''], Open),
      ([''exit'', ''quit'', ''goodbye''], [], Exit)]"

fun first_match :: "(string list \<times> string list \<times> branch) list \<Rightarrow> string \<Rightarrow> branch" where
  "first_match [] cmd = Fallback"
| "first_match ((ks, also, b) # rest) cmd =
     (if any_in ks cmd \<and> (also = [] \<or> any_in also cmd) then b else first_match rest cmd)"

text \<open>A starting state and an environment with no network, for concrete runs.\<close>

definition initial_app :: "dict \<Rightarrow> app" where
  "initial_app cfg =
     \<lparr>config = cfg, gui_queue = [], listening_event = False, med_after_ids = [],
      timers = [], next_after_id = 0, effects = [], openai_api_key = JNull,
      font_size = 16, disk = NoFile\<rparr>"

definition offline_env :: env where
  "offline_env =
     \<lparr>repr_of = (\<lambda>v. ''?''),
      exc_text = (\<lambda>e. ''failed''),
      clock_time = ''09:00 AM'',
      clock_date = ''Monday, January 01, 2024'',
      now_us = 32400000000,
      ms_of_us = (\<lambda>u. u div 1000),
      random_index = 0,
      http_get = (\<lambda>url params. Inl RequestException),
      chat_completion = (\<lambda>prompt. Inl RequestException),
      wikipedia_summary = (\<lambda>query. Inl RequestException),
      browser_raises = (\<lambda>target. None),
      tk_raises = (\<lambda>c. None),
      write_raises = None,
      partial_write = (\<lambda>f. f),
      play_music_from_favorites = (\<lambda>st. Inr ((), st)),
      add_reminder = (\<lambda>text st. Inr (JStr ''ok'', st))\<rparr>"

text \<open>A configuration with the three API keys set.\<close>

definition keyed_config :: dict where
  "keyed_config = [(''api_keys'', JDict [(''openweathermap'', JStr ''k''), (''newsapi'', JStr ''n''), (''openai'', JStr ''o'')])]"

text \<open>
  The chat completion gave no answer: no key is configured, or the call raised.
\<close>

definition ai_failed :: "env \<Rightarrow> string \<Rightarrow> app \<Rightarrow> bool" where
  "ai_failed env command st =
     (\<not> py_truthy (ConfigManager_get (config st) ''api_keys.openai'' (JStr ''''))
      \<or> isl (get_ai_response env command))"

section \<open>Draining the GUI queue\<close>

text \<open>\<^verbatim>\<open>item[i]\<close> on a tuple.\<close>

definition tuple_item :: "item \<Rightarrow> nat \<Rightarrow> error + pyobj" where
  "tuple_item it i = (if i < length it then Inr (it ! i) else Inl IndexError)"

text \<open>
  The text of an object inside an f-string. For a widget it is whatever the toolkit
  prints for it, which \<open>repr_of\<close> gives for the widget's name.
\<close>

definition obj_str :: "env \<Rightarrow> pyobj \<Rightarrow> string" where
  "obj_str env x = (case x of Val v \<Rightarrow> py_str (repr_of env) v | Widget w \<Rightarrow> repr_of env (JStr w))"

text \<open>
  The toolkit calls are made one after the other; the first that raises stops the
  rest. The result is the calls carried out and the exception, if any.
\<close>

fun tk_run :: "env \<Rightarrow> tk_call list \<Rightarrow> tk_call list \<times> error option" where
  "tk_run env [] = ([], None)"
| "tk_run env (c # cs) =
     (case tk_raises env c of
        Some e \<Rightarrow> ([], Some e)
      | None \<Rightarrow> (c # fst (tk_run env cs), snd (tk_run env cs)))"

text \<open>\<^verbatim>\<open>_append_text(tag, text)\<close>: the prefix depends on the tag.\<close>

definition append_prefix :: "pyobj \<Rightarrow> string" where
  "append_prefix tag =
     (if tag = Val (JStr ''user'') then ''You: ''
      else if tag = Val (JStr ''assistant'') then ''AURA: ''
      else if tag = Val (JStr ''system'') then ''System: ''
      else if tag = Val (JStr ''emergency'') then ''!!! EMERGENCY: ''
      else '''')"

definition append_text :: "env \<Rightarrow> pyobj \<Rightarrow> pyobj \<Rightarrow> tk_call list" where
  "append_text env tag text =
     [TextboxState ''normal'',
      TextboxInsert (append_prefix tag @ obj_str env text @ [CHR 0x0A, CHR 0x0A]),
      TextboxState ''disabled'',
      TextboxSee]"

text \<open>
  The body of the loop of \<^verbatim>\<open>_process_gui_queue\<close> for one item: the chain of
  comparisons of \<^verbatim>\<open>item[0]\<close>, with no final \<^verbatim>\<open>else\<close>. Only a widget has
  \<^verbatim>\<open>configure\<close>.
\<close>

definition dispatch :: "env \<Rightarrow> item \<Rightarrow> tk_call list \<times> error option" where
  "dispatch env it =
     (case tuple_item it 0 of
        Inl e \<Rightarrow> ([], Some e)
      | Inr action \<Rightarrow>
          if action = Val (JStr ''append'') then
            (case tuple_item it 1 of
               Inl e \<Rightarrow> ([], Some e)
             | Inr tag \<Rightarrow>
                 (case tuple_item it 2 of
                    Inl e \<Rightarrow> ([], Some e)
                  | Inr text \<Rightarrow> tk_run env (append_text env tag text)))
          else if action = Val (JStr ''status'') then
            (case tuple_item it 1 of
               Inl e \<Rightarrow> ([], Some e)
             | Inr s \<Rightarrow> tk_run env [StatusSet s])
          else if action = Val (JStr ''button'') then
            (case tuple_item it 1 of
               Inl e \<Rightarrow> ([], Some e)
             | Inr btn \<Rightarrow>
                 (case tuple_item it 2 of
                    Inl e \<Rightarrow> ([], Some e)
                  | Inr text \<Rightarrow>
                      (case btn of
                         Widget w \<Rightarrow> tk_run env [Configure w text]
                       | Val v \<Rightarrow> ([], Some AttributeError))))
          else if action = Val (JStr ''error_popup'') then
            (case tuple_item it 1 of
               Inl e \<Rightarrow> ([], Some e)
             | Inr msg \<Rightarrow> tk_run env [ShowError msg])
          else if action = Val (JStr ''info_popup'') then
            (case tuple_item it 1 of
               Inl e \<Rightarrow> ([], Some e)
             | Inr msg \<Rightarrow> tk_run env [ShowInfo msg])
          else ([], None))"

text \<open>
  The \<^verbatim>\<open>while not self.gui_queue.empty()\<close> loop inside the \<^verbatim>\<open>try\<close>: each round takes
  the head of the queue and dispatches it; an exception leaves the loop. The result is
  the calls carried out, the items left on the queue and the exception, if any.
\<close>

fun drain :: "env \<Rightarrow> item list \<Rightarrow> tk_call list \<times> item list \<times> error option" where
  "drain env [] = ([], [], None)"
| "drain env (it # rest) =
     (case snd (dispatch env it) of
        Some e \<Rightarrow> (fst (dispatch env it), rest, Some e)
      | None \<Rightarrow>
          (fst (dispatch env it) @ fst (drain env rest), snd (drain env rest)))"

text \<open>
  \<^verbatim>\<open>_process_gui_queue\<close>: the loop, the \<^verbatim>\<open>except\<close> that only prints, and the
  \<^verbatim>\<open>finally\<close> that schedules the next tick.
\<close>

definition process_gui_queue :: "env \<Rightarrow> app \<Rightarrow> app" where
  "process_gui_queue env st =
     (let d = drain env (gui_queue st)
      in snd (after 100 ProcessGuiQueue
               (st\<lparr>gui_queue := fst (snd d),
                   effects := effects st @ map Tk (fst d)\<rparr>)))"

text \<open>
  For the statement of the tick: an item whose dispatch raises nothing, and the number
  of items a tick takes off a queue (all of them, or those up to and including the
  first whose dispatch raises).
\<close>

definition dispatch_ok :: "env \<Rightarrow> item \<Rightarrow> bool" where
  "dispatch_ok env it = (snd (dispatch env it) = None)"

definition taken :: "env \<Rightarrow> item list \<Rightarrow> nat" where
  "taken env q = min (length q) (Suc (length (takeWhile (dispatch_ok env) q)))"

text \<open>The labels of the listen button (a microphone and a red circle, in UTF-8).\<close>

definition start_listening_text :: string where
  "start_listening_text = [CHR 0xF0, CHR 0x9F, CHR 0x8E, CHR 0xA4] @ '' Start Listening''"

definition listening_text :: string where
  "listening_text = [CHR 0xF0, CHR 0x9F, CHR 0x94, CHR 0xB4] @ '' Listening...''"

definition info_popup_item :: "string \<Rightarrow> item" where
  "info_popup_item msg = [Val (JStr ''info_popup''), Val (JStr msg)]"

text \<open>An environment in which configuring a widget raises.\<close>

definition configure_fails_env :: env where
  "configure_fails_env =
     offline_env\<lparr>tk_raises := (\<lambda>c. case c of Configure w t \<Rightarrow> Some TclError | _ \<Rightarrow> None)\<rparr>"

text \<open>
  The state right after the user stops listening: the two items that reset the
  button and the status line wait on the queue.
\<close>

definition reset_pending :: app where
  "reset_pending =
     (initial_app DEFAULT_CONFIG)
       \<lparr>gui_queue := [button_item ''listen_button'' start_listening_text, status_item ''Ready'']\<rparr>"

section \<open>Medication reminders\<close>

text \<open>
  \<^verbatim>\<open>_trigger_medication(med, time_str)\<close>: the message is queued and spoken, a timer
  is set for \<^verbatim>\<open>24 * 3600 * 1000\<close> milliseconds with the same two arguments, and
  its id is appended to \<^verbatim>\<open>_med_after_ids\<close>.
\<close>

definition trigger_medication :: "env \<Rightarrow> string \<Rightarrow> json \<Rightarrow> app \<Rightarrow> app" where
  "trigger_medication env med time_str st =
     (let msg = JStr (''It's time to take your '' @ med @ '' (''
                      @ py_str (repr_of env) time_str @ '').'');
          st1 = speak msg True (put (append_item ''assistant'' msg) st);
          armed = after (24 * 3600 * 1000) (TriggerMedication med time_str) st1
      in (snd armed)\<lparr>med_after_ids := med_after_ids (snd armed) @ [fst armed]\<rparr>)"

text \<open>
  The clock of the environment, \<open>now_us\<close>, is the time of day in microseconds since
  midnight. \<^verbatim>\<open>now.replace(hour=hh, minute=mm, second=0, microsecond=0)\<close> is the
  target of today; when it is not after \<^verbatim>\<open>now\<close> a day is added. The result is the
  difference in microseconds.
\<close>

definition day_us :: nat where
  "day_us = 24 * 3600 * 1000000"

definition target_us :: "nat \<Rightarrow> nat \<Rightarrow> nat" where
  "target_us hh mm = (hh * 3600 + mm * 60) * 1000000"

definition next_delta_us :: "nat \<Rightarrow> nat \<Rightarrow> nat \<Rightarrow> nat" where
  "next_delta_us now hh mm =
     (if target_us hh mm \<le> now then target_us hh mm + day_us - now
      else target_us hh mm - now)"

text \<open>
  The body of the inner loop of \<^verbatim>\<open>_schedule_medication_reminders\<close>, a \<^verbatim>\<open>try\<close>
  whose \<^verbatim>\<open>except\<close> only prints: a time that does not parse schedules nothing.
  \<^verbatim>\<open>int(delta * 1000)\<close>, computed on floats, is \<open>ms_of_us\<close> of the environment.
\<close>

definition schedule_one :: "env \<Rightarrow> string \<Rightarrow> json \<Rightarrow> app \<Rightarrow> app" where
  "schedule_one env med tstr st =
     (case parse_hhmm tstr of
        Inl e \<Rightarrow> st
      | Inr hm \<Rightarrow>
          (let armed = after (ms_of_us env (next_delta_us (now_us env) (fst hm) (snd hm)))
                             (TriggerMedication med tstr) st
           in (snd armed)\<lparr>med_after_ids := med_after_ids (snd armed) @ [fst armed]\<rparr>))"

fun schedule_times :: "env \<Rightarrow> string \<Rightarrow> json list \<Rightarrow> app \<Rightarrow> app" where
  "schedule_times env med [] st = st"
| "schedule_times env med (tstr # rest) st = schedule_times env med rest (schedule_one env med tstr st)"

text \<open>
  The outer loop: \<^verbatim>\<open>for tstr in times\<close> is outside the \<^verbatim>\<open>try\<close>, so a value that
  cannot be iterated raises out of the method.
\<close>

fun schedule_items :: "env \<Rightarrow> (string \<times> json) list \<Rightarrow> app \<Rightarrow> unit outcome" where
  "schedule_items env [] st = Inr ((), st)"
| "schedule_items env (entry # rest) st =
     (case py_iter (snd entry) of
        Inl e \<Rightarrow> Inl (e, st)
      | Inr tstrs \<Rightarrow> schedule_items env rest (schedule_times env (fst entry) tstrs st))"

text \<open>
  \<^verbatim>\<open>_schedule_medication_reminders\<close>: the recorded timers are cancelled (each in a
  \<^verbatim>\<open>try\<close> of its own), the list is cleared, and the schedule of the configuration,
  \<^verbatim>\<open>get("medication_schedule", {}) or {}\<close>, is walked with \<^verbatim>\<open>.items()\<close>.
\<close>

definition cancel_all :: "nat list \<Rightarrow> app \<Rightarrow> app" where
  "cancel_all ids st = fold after_cancel ids st"

definition config_schedule :: "dict \<Rightarrow> json" where
  "config_schedule cfg =
     (let found = ConfigManager_get cfg ''medication_schedule'' (JDict [])
      in if py_truthy found then found else JDict [])"

definition schedule_medication_reminders :: "env \<Rightarrow> app \<Rightarrow> unit outcome" where
  "schedule_medication_reminders env st =
     (let st1 = (cancel_all (med_after_ids st) st)\<lparr>med_after_ids := []\<rparr>
      in case py_items (config_schedule (config st1)) of
           Inl e \<Rightarrow> Inl (e, st1)
         | Inr entries \<Rightarrow> schedule_items env entries st1)"

text \<open>
  Toolkit calls made directly by a method: those carried out are logged, and the first
  that raises ends the method.
\<close>

definition tk_do :: "env \<Rightarrow> tk_call list \<Rightarrow> app \<Rightarrow> unit outcome" where
  "tk_do env calls st =
     (let r = tk_run env calls;
          st' = st\<lparr>effects := effects st @ map Tk (fst r)\<rparr>
      in case snd r of Some e \<Rightarrow> Inl (e, st') | None \<Rightarrow> Inr ((), st'))"

text \<open>\<^verbatim>\<open>self.config.get(key, default)\<close> on the top-level dictionary.\<close>

definition config_get :: "dict \<Rightarrow> string \<Rightarrow> json \<Rightarrow> json" where
  "config_get cfg k dflt = (case dict_get cfg k of Some v \<Rightarrow> v | None \<Rightarrow> dflt)"

text \<open>
  \<^verbatim>\<open>apply_settings_changes\<close>. The greeting is reconfigured; the appearance mode and
  the two properties of the speech engine are set inside \<^verbatim>\<open>try\<close> blocks that swallow
  every exception and touch nothing of the state below, so they are left out; the font
  size is converted with \<^verbatim>\<open>int\<close> and given to the two text widgets; the medication
  reminders are rescheduled; a truthy OpenAI key is installed.
\<close>

definition install_openai_key :: "app \<Rightarrow> app" where
  "install_openai_key st =
     (let k = ConfigManager_get (config st) ''api_keys.openai'' (JStr '''')
      in if py_truthy k then st\<lparr>openai_api_key := k\<rparr> else st)"

definition greeting :: "env \<Rightarrow> dict \<Rightarrow> tk_call" where
  "greeting env cfg =
     Configure ''user_label''
       (Val (JStr (''Hello, '' @ py_str (repr_of env) (config_get cfg ''user_name'' (JStr ''User'')))))"

definition apply_settings_changes :: "env \<Rightarrow> app \<Rightarrow> unit outcome" where
  "apply_settings_changes env st =
     (case tk_do env [greeting env (config st)] st of
        Inl x \<Rightarrow> Inl x
      | Inr r1 \<Rightarrow>
          (case py_int (config_get (config (snd r1)) ''font_size'' (JInt 16)) of
             Inl e \<Rightarrow> Inl (e, snd r1)
           | Inr n \<Rightarrow>
               (case tk_do env [ConfigureFont ''textbox'' n, ConfigureFont ''entry'' n]
                       ((snd r1)\<lparr>font_size := n\<rparr>) of
                  Inl x \<Rightarrow> Inl x
                | Inr r2 \<Rightarrow>
                    (case schedule_medication_reminders env (snd r2) of
                       Inl x \<Rightarrow> Inl x
                     | Inr r3 \<Rightarrow> Inr ((), install_openai_key (snd r3))))))"

text \<open>
  For the statements about rescheduling: the timers the schedule asks for, in the order
  of the loops (one for each time that parses), and a schedule every value of which
  can be iterated.
\<close>

fun planned_times :: "env \<Rightarrow> string \<Rightarrow> json list \<Rightarrow> (nat \<times> callback) list" where
  "planned_times env med [] = []"
| "planned_times env med (tstr # rest) =
     (case parse_hhmm tstr of
        Inl e \<Rightarrow> planned_times env med rest
      | Inr hm \<Rightarrow>
          (ms_of_us env (next_delta_us (now_us env) (fst hm) (snd hm)), TriggerMedication med tstr)
          # planned_times env med rest)"

fun planned :: "env \<Rightarrow> (string \<times> json) list \<Rightarrow> (nat \<times> callback) list" where
  "planned env [] = []"
| "planned env (entry # rest) =
     (case py_iter (snd entry) of
        Inl e \<Rightarrow> []
      | Inr tstrs \<Rightarrow> planned_times env (fst entry) tstrs)
     @ planned env rest"

definition iterable :: "json \<Rightarrow> bool" where
  "iterable v = (\<not> isl (py_iter v))"

definition numbered :: "nat \<Rightarrow> 'a list \<Rightarrow> (nat \<times> 'a) list" where
  "numbered n xs = zip [n ..< n + length xs] xs"

definition is_medication :: "nat \<times> nat \<times> callback \<Rightarrow> bool" where
  "is_medication t = (case snd (snd t) of TriggerMedication med tstr \<Rightarrow> True | _ \<Rightarrow> False)"

text \<open>
  A state in which every pending medication timer is recorded in \<^verbatim>\<open>_med_after_ids\<close>.
\<close>

definition med_timers_recorded :: "app \<Rightarrow> bool" where
  "med_timers_recorded st =
     list_all (\<lambda>t. is_medication t \<longrightarrow> fst t \<in> set (med_after_ids st)) (timers st)"

text \<open>A schedule with one medication, a time that parses and one that does not.\<close>

definition aspirin_config :: dict where
  "aspirin_config =
     ConfigManager_set DEFAULT_CONFIG ''medication_schedule''
       (JDict [(''Aspirin'', JList [JStr ''08:30'', JStr ''soon'', JStr ''21:00''])])"

definition aspirin_app :: app where
  "aspirin_app =
     (initial_app aspirin_config)
       \<lparr>timers := [(0, 100, ProcessGuiQueue), (1, 5000, TriggerMedication ''Old'' (JStr ''07:00''))],
        med_after_ids := [1], next_after_id := 2\<rparr>"

section \<open>Properties of ConfigManager\<close>

lemma split_on_nonempty: "split_on c s \<noteq> []"
  by (induction s) (auto split: list.splits)

lemma dict_get_dict_set_same: "dict_get (dict_set d k v) k = Some v"
  by (induction d k v rule: dict_set.induct) (auto simp: dict_get_def)

lemma dict_get_dict_set_other: "k' \<noteq> k \<Longrightarrow> dict_get (dict_set d k v) k' = dict_get d k'"
  by (induction d k v rule: dict_set.induct) (auto simp: dict_get_def)

lemma get_parts_set_walk:
  "get_parts (JDict (set_walk cur pre k v)) (pre @ [k]) dflt = v"
  by (induction pre arbitrary: cur) (simp_all add: dict_get_dict_set_same Let_def)

lemma get_parts_broken: "path_broken cur ps \<Longrightarrow> get_parts cur ps dflt = dflt"
  by (induction cur ps rule: path_broken.induct) (auto split: option.splits)

text \<open>
  C8. For every key path (its split on dots is never empty) and every value, reading the
  path right after writing it returns the value written, whatever the dictionary held
  before; and a lookup whose path breaks (a missing segment, or a non-dictionary on the
  way) returns the default it was given.
\<close>

theorem config_get_set_roundtrip:
  "ConfigManager_get (ConfigManager_set data key_path v) key_path dflt = v
   \<and> (path_broken (JDict data) (split_on CHR ''.'' key_path)
        \<longrightarrow> ConfigManager_get data key_path dflt = dflt)"
proof -
  let ?parts = "split_on CHR ''.'' key_path"
  have "?parts = butlast ?parts @ [last ?parts]"
    by (simp add: split_on_nonempty)
  then have "get_parts (JDict (set_walk data (butlast ?parts) (last ?parts) v)) ?parts dflt = v"
    using get_parts_set_walk [of data "butlast ?parts" "last ?parts" v dflt] by simp
  then show ?thesis
    by (simp add: ConfigManager_get_def ConfigManager_set_def Let_def get_parts_broken)
qed

theorem config_get_set_roundtrip_witness:
  "ConfigManager_get
     (ConfigManager_set [(''api_keys'', JStr ''x'')] ''api_keys.openai'' (JStr ''k''))
     ''api_keys.openai'' JNull = JStr ''k''
   \<and> path_broken (JDict [(''api_keys'', JStr ''x'')]) (split_on CHR ''.'' ''api_keys.openai'')
   \<and> ConfigManager_get [(''api_keys'', JStr ''x'')] ''api_keys.openai'' (JStr '''') = JStr ''''"
  using config_get_set_roundtrip [of "[(''api_keys'', JStr ''x'')]" "''api_keys.openai''" "JStr ''k''" JNull]
    config_get_set_roundtrip [of "[(''api_keys'', JStr ''x'')]" "''api_keys.openai''" "JStr ''k''" "JStr ''''"]
  by (simp add: dict_get_def)

lemma has_key_dict_set: "has_key d k' \<Longrightarrow> has_key (dict_set d k v) k'"
  unfolding has_key_def
  by (induction d k v rule: dict_set.induct) (auto simp: dict_get_def)

lemma has_key_dict_set_same: "has_key (dict_set d k v) k"
  by (simp add: has_key_def dict_get_dict_set_same)

lemma has_key_update_items: "has_key d k' \<Longrightarrow> has_key (update_items d kvs) k'"
  by (induction d kvs rule: update_items.induct) (auto simp: has_key_dict_set)

lemma has_key_update_pairs:
  "update_pairs d xs = Inr m \<Longrightarrow> has_key d k' \<Longrightarrow> has_key m k'"
  by (induction d xs rule: update_pairs.induct) (auto simp: has_key_dict_set split: sum.splits option.splits)

lemma has_key_dict_update:
  "dict_update d j = Inr m \<Longrightarrow> has_key d k' \<Longrightarrow> has_key m k'"
  by (cases j) (auto simp: has_key_update_items has_key_update_pairs split: if_splits)

lemma has_key_setdefault: "has_key d k' \<Longrightarrow> has_key (dict_setdefault d k v) k'"
  by (auto simp: dict_setdefault_def has_key_dict_set split: option.splits)

lemma has_key_setdefault_same: "has_key (dict_setdefault d k v) k"
  by (auto simp: dict_setdefault_def has_key_def dict_get_dict_set_same split: option.splits)

lemma has_key_setdefault_items_keep: "has_key d k' \<Longrightarrow> has_key (setdefault_items d kvs) k'"
  by (induction d kvs rule: setdefault_items.induct) (auto simp: has_key_setdefault)

lemma has_key_setdefault_items:
  "k' \<in> fst ` set kvs \<Longrightarrow> has_key (setdefault_items d kvs) k'"
  by (induction d kvs rule: setdefault_items.induct)
     (auto simp: has_key_setdefault_same has_key_setdefault_items_keep)

lemma has_key_ensure_key: "has_key d k' \<Longrightarrow> has_key (ensure_key d k v) k'"
  by (simp add: ensure_key_def has_key_dict_set)

lemma dict_get_ensure_key_other: "k' \<noteq> k \<Longrightarrow> dict_get (ensure_key d k v) k' = dict_get d k'"
  by (simp add: ensure_key_def dict_get_dict_set_other)

lemma has_key_ensure_api_keys: "ensure_api_keys d = Inr m \<Longrightarrow> has_key d k' \<Longrightarrow> has_key m k'"
  by (auto simp: ensure_api_keys_def has_key_dict_set split: option.splits json.splits)

lemma api_keys_ensure_api_keys:
  "ensure_api_keys d = Inr m \<Longrightarrow>
   \<exists>a. dict_get m ''api_keys'' = Some (JDict a) \<and> has_keys a [''openweathermap'', ''newsapi'', ''openai'']"
proof -
  assume h: "ensure_api_keys d = Inr m"
  have d: "has_keys default_api_keys [''openweathermap'', ''newsapi'', ''openai'']"
    by (simp add: has_keys_def default_api_keys_def dict_get_def)
  have s: "has_keys (setdefault_items a default_api_keys) [''openweathermap'', ''newsapi'', ''openai'']" for a
    using has_key_setdefault_items [of _ default_api_keys a]
    by (simp add: has_keys_def has_key_def default_api_keys_def)
  from h show ?thesis
    by (auto simp: ensure_api_keys_def dict_get_dict_set_same d s split: option.splits json.splits)
qed

lemma has_keys_default: "has_keys DEFAULT_CONFIG (map fst DEFAULT_CONFIG)"
  by (simp add: has_keys_def DEFAULT_CONFIG_def dict_get_def)

lemma has_keys_iff: "has_keys d ks = (\<forall>k \<in> set ks. has_key d k)"
  by (simp add: has_keys_def has_key_def list_all_iff)

lemma load_merge_keys:
  assumes "load_merge loaded = Inr m"
  shows "has_keys m (map fst DEFAULT_CONFIG)"
proof -
  from assms obtain m0 m1 where
    u: "dict_update DEFAULT_CONFIG loaded = Inr m0" and
    a: "ensure_api_keys m0 = Inr m1" and
    m: "m = ensure_key (ensure_key (ensure_key m1 ''favorites'' (JDict default_favorites))
                       ''medication_schedule'' (JDict [])) ''emergency_contacts'' (JList [])"
    by (auto simp: load_merge_def split: sum.splits)
  have "has_key m k" if "k \<in> set (map fst DEFAULT_CONFIG)" for k
  proof -
    from that have "has_key DEFAULT_CONFIG k"
      using has_keys_default by (auto simp: has_keys_iff)
    then have "has_key m0 k" using u by (rule has_key_dict_update [rotated])
    then have "has_key m1 k" using a by (rule has_key_ensure_api_keys [rotated])
    then show ?thesis by (simp add: m has_key_ensure_key)
  qed
  then show ?thesis by (simp add: has_keys_iff)
qed

lemma load_merge_api_keys:
  assumes "load_merge loaded = Inr m"
  shows "\<exists>a. dict_get m ''api_keys'' = Some (JDict a) \<and> has_keys a [''openweathermap'', ''newsapi'', ''openai'']"
proof -
  from assms obtain m0 m1 where
    a: "ensure_api_keys m0 = Inr m1" and
    m: "m = ensure_key (ensure_key (ensure_key m1 ''favorites'' (JDict default_favorites))
                       ''medication_schedule'' (JDict [])) ''emergency_contacts'' (JList [])"
    by (auto simp: load_merge_def split: sum.splits)
  have "dict_get m ''api_keys'' = dict_get m1 ''api_keys''"
    by (simp add: m dict_get_ensure_key_other)
  then show ?thesis using api_keys_ensure_api_keys [OF a] by simp
qed

lemma default_api_keys_ok:
  "\<exists>a. dict_get DEFAULT_CONFIG ''api_keys'' = Some (JDict a) \<and> has_keys a [''openweathermap'', ''newsapi'', ''openai'']"
  by (simp add: DEFAULT_CONFIG_def dict_get_def has_keys_def default_api_keys_def)

lemma dict_get_update_items_absent:
  "dict_get kvs k = None \<Longrightarrow> dict_get (update_items d kvs) k = dict_get d k"
  by (induction d kvs rule: update_items.induct)
     (auto simp: dict_get_def dict_get_dict_set_other[unfolded dict_get_def] split: if_splits)

lemma dict_get_ensure_api_keys_other:
  "ensure_api_keys d = Inr m \<Longrightarrow> k \<noteq> ''api_keys'' \<Longrightarrow> dict_get m k = dict_get d k"
  by (auto simp: ensure_api_keys_def dict_get_dict_set_other split: option.splits json.splits)

lemma dict_get_ensure_key_present:
  "dict_get d k = Some x \<Longrightarrow> dict_get (ensure_key d k v) k = Some x"
  by (simp add: ensure_key_def)

lemma load_favorites_absent:
  assumes "dict_get kvs ''favorites'' = None"
  shows "dict_get (ConfigManager_load (Loaded (JDict kvs))) ''favorites'' = Some (JDict default_favorites)"
proof (cases "load_merge (JDict kvs)")
  case (Inl e)
  then show ?thesis by (simp add: ConfigManager_load_def DEFAULT_CONFIG_def dict_get_def)
next
  case (Inr m)
  then obtain m1 where
    a: "ensure_api_keys (update_items DEFAULT_CONFIG kvs) = Inr m1" and
    m: "m = ensure_key (ensure_key (ensure_key m1 ''favorites'' (JDict default_favorites))
                       ''medication_schedule'' (JDict [])) ''emergency_contacts'' (JList [])"
    by (auto simp: load_merge_def split: sum.splits)
  have "dict_get (update_items DEFAULT_CONFIG kvs) ''favorites'' = Some (JDict default_favorites)"
    using assms by (simp add: dict_get_update_items_absent) (simp add: DEFAULT_CONFIG_def dict_get_def)
  then have "dict_get m1 ''favorites'' = Some (JDict default_favorites)"
    using dict_get_ensure_api_keys_other [OF a, of "''favorites''"] by simp
  then have "dict_get m ''favorites'' = Some (JDict default_favorites)"
    by (simp add: m dict_get_ensure_key_other dict_get_ensure_key_present)
  then show ?thesis using Inr by (simp add: ConfigManager_load_def)
qed

text \<open>
  C9. Whatever the configuration file holds, \<^verbatim>\<open>_load\<close> returns a dictionary with every
  top-level key of the defaults, whose \<^verbatim>\<open>api_keys\<close> entry is a dictionary with the
  three service keys. With no file, or when reading or parsing raises, or when the merge
  itself raises, the result is the defaults. The defaults of \<^verbatim>\<open>favorites\<close> are there
  when the file has no \<^verbatim>\<open>favorites\<close> key; a file that supplies only part of
  \<^verbatim>\<open>favorites\<close> keeps its own value, without the \<^verbatim>\<open>music\<close> list.
\<close>

theorem load_has_defaults:
  "has_keys (ConfigManager_load f) (map fst DEFAULT_CONFIG)
   \<and> (\<exists>a. dict_get (ConfigManager_load f) ''api_keys'' = Some (JDict a)
          \<and> has_keys a [''openweathermap'', ''newsapi'', ''openai''])
   \<and> ConfigManager_load NoFile = DEFAULT_CONFIG
   \<and> ConfigManager_load (Unreadable e) = DEFAULT_CONFIG
   \<and> (load_merge loaded = Inl e' \<longrightarrow> ConfigManager_load (Loaded loaded) = DEFAULT_CONFIG)
   \<and> (dict_get kvs ''favorites'' = None \<longrightarrow>
        dict_get (ConfigManager_load (Loaded (JDict kvs))) ''favorites''
          = Some (JDict default_favorites))
   \<and> dict_get (ConfigManager_load (Loaded (JDict [(''favorites'', JDict [(''websites'', JList [])])])))
        ''favorites'' = Some (JDict [(''websites'', JList [])])"
proof -
  have keys: "has_keys (ConfigManager_load f) (map fst DEFAULT_CONFIG)"
    by (auto simp: ConfigManager_load_def has_keys_default load_merge_keys
             split: config_file.splits sum.splits)
  have api: "\<exists>a. dict_get (ConfigManager_load f) ''api_keys'' = Some (JDict a)
          \<and> has_keys a [''openweathermap'', ''newsapi'', ''openai'']"
  proof (cases f)
    case (Loaded loaded)
    then show ?thesis
      using default_api_keys_ok load_merge_api_keys [of loaded]
      by (cases "load_merge loaded") (simp_all add: ConfigManager_load_def)
  qed (simp_all add: ConfigManager_load_def default_api_keys_ok)
  have part: "dict_get (ConfigManager_load (Loaded (JDict [(''favorites'', JDict [(''websites'', JList [])])])))
       ''favorites'' = Some (JDict [(''websites'', JList [])])"
    by (simp add: ConfigManager_load_def load_merge_def DEFAULT_CONFIG_def ensure_api_keys_def
         ensure_key_def dict_get_def default_api_keys_def dict_setdefault_def)
  show ?thesis
    using keys api part
    by (simp add: load_favorites_absent) (simp add: ConfigManager_load_def)
qed

theorem load_has_defaults_witness:
  "has_keys (ConfigManager_load (Loaded (JDict [(''city'', JStr ''Pune'')]))) (map fst DEFAULT_CONFIG)
   \<and> load_merge (JStr ''x'') = Inl ValueError
   \<and> ConfigManager_load (Loaded (JStr ''x'')) = DEFAULT_CONFIG
   \<and> dict_get [(''city'', JStr ''Pune'')] ''favorites'' = None
   \<and> dict_get (ConfigManager_load (Loaded (JDict [(''city'', JStr ''Pune'')]))) ''favorites''
        = Some (JDict default_favorites)"
  using load_has_defaults [of "Loaded (JDict [(''city'', JStr ''Pune'')])" OSError "JStr ''x''"
      ValueError "[(''city'', JStr ''Pune'')]"]
  by (simp add: dict_get_def load_merge_def)

section \<open>Properties of the command router\<close>

lemma state_of_simps: "state_of (Inl (e, s)) = s" "state_of (Inr (x, s)) = s"
  by (simp_all add: state_of_def)

lemma route_table: "route cmd = first_match routing_table cmd"
  by (auto simp: route_def routing_table_def any_in_def)

lemma simulate_calls_effects: "effects (state_of (simulate_calls env cs st)) = effects st"
  by (induction cs arbitrary: st) (simp_all add: state_of_simps put_def split: sum.splits)

lemma emergency_effects:
  "effects (state_of (emergency_protocol env st))
     = effects st @ [Speak (JStr ''Emergency! Assistance requested!'') True]"
  by (simp add: emergency_protocol_def Let_def state_of_simps simulate_calls_effects put_def speak_def
           split: sum.splits)

lemma effects_on_exception: "effects (on_exception env r) = effects (state_of r)"
  by (auto simp: on_exception_def state_of_def put_def split: sum.splits)

lemma route_emergency: "any_in emergency_keywords cmd \<Longrightarrow> route cmd = Emergency"
  by (simp add: route_def emergency_keywords_def)

text \<open>
  C1. The branch \<^verbatim>\<open>_do_command\<close> takes is the first entry of the routing table, in the
  order of the specification, whose keywords occur in the lowercased, stripped input;
  the handler of that branch is the only one that runs. An emergency keyword anywhere
  in the input selects the emergency protocol whatever else the input holds: the run
  is the emergency protocol alone, and the only outward effect is its spoken alert
  (no browser, no request, no other handler), as for \<^verbatim>\<open>help me open a website\<close>.
\<close>

theorem do_command_first_match:
  "route cmd = first_match routing_table cmd
   \<and> (any_in emergency_keywords cmd \<longrightarrow> route cmd = Emergency)
   \<and> do_command env command st =
       on_exception env
         (run_branch env (route (py_strip (py_lower command))) command (py_strip (py_lower command)) st)
   \<and> (any_in emergency_keywords (py_strip (py_lower command)) \<longrightarrow>
        do_command env command st =
          on_exception env
            (emergency_protocol env
              (put (append_item ''assistant'' (JStr ''Triggering emergency protocol.'')) st))
        \<and> new_effects st (do_command env command st)
            = [Speak (JStr ''Emergency! Assistance requested!'') True])
   \<and> route (py_strip (py_lower ''help me open a website'')) = Emergency"
proof -
  have a: "do_command env command st =
       on_exception env
         (run_branch env (route (py_strip (py_lower command))) command (py_strip (py_lower command)) st)"
    by (simp add: do_command_def Let_def)
  have b: "do_command env command st =
          on_exception env
            (emergency_protocol env
              (put (append_item ''assistant'' (JStr ''Triggering emergency protocol.'')) st))"
    if "any_in emergency_keywords (py_strip (py_lower command))"
    using route_emergency [OF that] by (simp add: a run_branch_def)
  have c: "new_effects st (do_command env command st)
            = [Speak (JStr ''Emergency! Assistance requested!'') True]"
    if "any_in emergency_keywords (py_strip (py_lower command))"
    by (simp add: b [OF that] new_effects_def effects_on_exception emergency_effects put_def)
  have d: "route (py_strip (py_lower ''help me open a website'')) = Emergency"
    by (rule route_emergency) code_simp
  from a b c d route_table [of cmd] route_emergency [of cmd] show ?thesis by blast
qed

theorem do_command_first_match_witness:
  "any_in emergency_keywords (py_strip (py_lower ''Help me OPEN a website''))
   \<and> route (py_strip (py_lower ''Help me OPEN a website'')) = Emergency
   \<and> new_effects (initial_app DEFAULT_CONFIG)
        (do_command offline_env ''Help me OPEN a website'' (initial_app DEFAULT_CONFIG))
       = [Speak (JStr ''Emergency! Assistance requested!'') True]"
proof -
  have k: "any_in emergency_keywords (py_strip (py_lower ''Help me OPEN a website''))"
    by code_simp
  from k do_command_first_match [of "py_strip (py_lower ''Help me OPEN a website'')" offline_env
      "''Help me OPEN a website''" "initial_app DEFAULT_CONFIG"]
  show ?thesis by blast
qed

section \<open>Properties of the weather and news lookups\<close>

lemma weather_text_shape:
  "weather_text env city response = Inr s \<Longrightarrow> startswith s ''The weather in ''"
  unfolding weather_text_def and_then_def
  by (auto split: sum.splits simp: startswith_def)

lemma news_text_shape:
  "news_text env response = Inr s \<Longrightarrow>
     s = ''No headlines available right now.'' \<or> startswith s (''Top headlines:'' @ [CHR 0x0A])"
  unfolding news_text_def and_then_def
  by (auto split: sum.splits if_splits simp: startswith_def)

text \<open>
  C10. \<^verbatim>\<open>get_weather\<close> and \<^verbatim>\<open>get_news\<close> return a string in every state and under every
  behaviour of the network (they are total functions with no exceptional result). With
  an empty API key each returns its fixed message and makes no HTTP request. A failure
  of the request (network, HTTP status, JSON decoding) is a failure of the \<^verbatim>\<open>try\<close>
  body, and every failure of the \<^verbatim>\<open>try\<close> body, also one of reading the response,
  becomes the sentence that starts with \<^verbatim>\<open>Could not fetch\<close>. Every result has one of
  the shapes the source can build.
\<close>

theorem weather_news_total:
  "(ConfigManager_get cfg ''api_keys.openweathermap'' (JStr '''') = JStr '''' \<longrightarrow>
      get_weather env cfg = (''Weather API key not configured. Please add it in Settings.'', []))
   \<and> (ConfigManager_get cfg ''api_keys.newsapi'' (JStr '''') = JStr '''' \<longrightarrow>
      get_news env cfg = (''News API key not configured. Please add it in Settings.'', []))
   \<and> (response = Inl e \<longrightarrow>
        weather_text env city response = Inl e \<and> news_text env response = Inl e)
   \<and> (fst (get_weather env cfg) = ''Weather API key not configured. Please add it in Settings.''
        \<or> startswith (fst (get_weather env cfg)) ''Could not fetch weather: ''
        \<or> startswith (fst (get_weather env cfg)) ''The weather in '')
   \<and> (fst (get_news env cfg) = ''News API key not configured. Please add it in Settings.''
        \<or> startswith (fst (get_news env cfg)) ''Could not fetch news: ''
        \<or> fst (get_news env cfg) = ''No headlines available right now.''
        \<or> startswith (fst (get_news env cfg)) (''Top headlines:'' @ [CHR 0x0A]))
   \<and> (py_truthy (ConfigManager_get cfg ''api_keys.openweathermap'' (JStr ''''))
        \<and> weather_text env (config_city cfg)
             (http_get env WEATHER_URL
               (weather_params (config_city cfg)
                 (ConfigManager_get cfg ''api_keys.openweathermap'' (JStr '''')))) = Inl e
        \<longrightarrow> fst (get_weather env cfg) = ''Could not fetch weather: '' @ exc_text env e)
   \<and> (py_truthy (ConfigManager_get cfg ''api_keys.newsapi'' (JStr ''''))
        \<and> news_text env
             (http_get env NEWS_URL
               (news_params (ConfigManager_get cfg ''api_keys.newsapi'' (JStr '''')))) = Inl e
        \<longrightarrow> fst (get_news env cfg) = ''Could not fetch news: '' @ exc_text env e)"
proof -
  have w0: "ConfigManager_get cfg ''api_keys.openweathermap'' (JStr '''') = JStr '''' \<longrightarrow>
      get_weather env cfg = (''Weather API key not configured. Please add it in Settings.'', [])"
    by (simp add: get_weather_def py_truthy_def)
  have n0: "ConfigManager_get cfg ''api_keys.newsapi'' (JStr '''') = JStr '''' \<longrightarrow>
      get_news env cfg = (''News API key not configured. Please add it in Settings.'', [])"
    by (simp add: get_news_def py_truthy_def)
  have r: "response = Inl e \<longrightarrow>
        weather_text env city response = Inl e \<and> news_text env response = Inl e"
    by (simp add: weather_text_def news_text_def and_then_def)
  have wt: "fst (get_weather env cfg) = ''Weather API key not configured. Please add it in Settings.''
        \<or> startswith (fst (get_weather env cfg)) ''Could not fetch weather: ''
        \<or> startswith (fst (get_weather env cfg)) ''The weather in ''"
    using weather_text_shape [of env]
    by (auto simp: get_weather_def Let_def startswith_def split: sum.splits)
  have nt: "fst (get_news env cfg) = ''News API key not configured. Please add it in Settings.''
        \<or> startswith (fst (get_news env cfg)) ''Could not fetch news: ''
        \<or> fst (get_news env cfg) = ''No headlines available right now.''
        \<or> startswith (fst (get_news env cfg)) (''Top headlines:'' @ [CHR 0x0A])"
    using news_text_shape [of env]
    by (auto simp: get_news_def Let_def startswith_def split: sum.splits)
  have we: "py_truthy (ConfigManager_get cfg ''api_keys.openweathermap'' (JStr ''''))
        \<and> weather_text env (config_city cfg)
             (http_get env WEATHER_URL
               (weather_params (config_city cfg)
                 (ConfigManager_get cfg ''api_keys.openweathermap'' (JStr '''')))) = Inl e
        \<longrightarrow> fst (get_weather env cfg) = ''Could not fetch weather: '' @ exc_text env e"
    by (simp add: get_weather_def Let_def)
  have ne: "py_truthy (ConfigManager_get cfg ''api_keys.newsapi'' (JStr ''''))
        \<and> news_text env
             (http_get env NEWS_URL
               (news_params (ConfigManager_get cfg ''api_keys.newsapi'' (JStr '''')))) = Inl e
        \<longrightarrow> fst (get_news env cfg) = ''Could not fetch news: '' @ exc_text env e"
    by (simp add: get_news_def Let_def)
  from w0 n0 r wt nt we ne show ?thesis by blast
qed

theorem weather_news_total_witness:
  "ConfigManager_get DEFAULT_CONFIG ''api_keys.openweathermap'' (JStr '''') = JStr ''''
   \<and> get_weather offline_env DEFAULT_CONFIG
        = (''Weather API key not configured. Please add it in Settings.'', [])
   \<and> ConfigManager_get DEFAULT_CONFIG ''api_keys.newsapi'' (JStr '''') = JStr ''''
   \<and> get_news offline_env DEFAULT_CONFIG
        = (''News API key not configured. Please add it in Settings.'', [])
   \<and> py_truthy (ConfigManager_get keyed_config ''api_keys.openweathermap'' (JStr ''''))
   \<and> weather_text (offline_env\<lparr>http_get := \<lambda>u p. Inr (JDict [])\<rparr>) (config_city keyed_config)
        (Inr (JDict [])) = Inl KeyError
   \<and> fst (get_weather (offline_env\<lparr>http_get := \<lambda>u p. Inr (JDict [])\<rparr>) keyed_config)
        = ''Could not fetch weather: failed''
   \<and> py_truthy (ConfigManager_get keyed_config ''api_keys.newsapi'' (JStr ''''))
   \<and> news_text offline_env (Inl RequestException) = Inl RequestException
   \<and> fst (get_news offline_env keyed_config) = ''Could not fetch news: failed''"
proof -
  let ?env = "offline_env\<lparr>http_get := \<lambda>u p. Inr (JDict [])\<rparr>"
  have h1: "ConfigManager_get DEFAULT_CONFIG ''api_keys.openweathermap'' (JStr '''') = JStr ''''"
    by code_simp
  have h2: "ConfigManager_get DEFAULT_CONFIG ''api_keys.newsapi'' (JStr '''') = JStr ''''"
    by code_simp
  have h3: "py_truthy (ConfigManager_get keyed_config ''api_keys.openweathermap'' (JStr ''''))"
    by code_simp
  have h4: "weather_text ?env (config_city keyed_config)
        (http_get ?env WEATHER_URL (weather_params (config_city keyed_config)
           (ConfigManager_get keyed_config ''api_keys.openweathermap'' (JStr '''')))) = Inl KeyError"
    by (simp add: weather_text_def and_then_def subscript_key_def dict_get_def)
  have h5: "py_truthy (ConfigManager_get keyed_config ''api_keys.newsapi'' (JStr ''''))"
    by code_simp
  have h6: "news_text offline_env
        (http_get offline_env NEWS_URL
           (news_params (ConfigManager_get keyed_config ''api_keys.newsapi'' (JStr '''')))) = Inl RequestException"
    by (simp add: news_text_def and_then_def offline_env_def)
  have t: "exc_text ?env KeyError = ''failed''" "exc_text offline_env RequestException = ''failed''"
    by (simp_all add: offline_env_def)
  from h1 h2 h3 h4 h5 h6 t
    weather_news_total [of DEFAULT_CONFIG offline_env "Inl RequestException" RequestException JNull]
    weather_news_total [of keyed_config ?env "Inl RequestException" KeyError JNull]
    weather_news_total [of keyed_config offline_env "Inl RequestException" RequestException JNull]
  show ?thesis by simp
qed

section \<open>Properties of the fallback chain\<close>

lemma fallback_cases:
  "fallback env command st =
     (let k = ConfigManager_get (config st) ''api_keys.openai'' (JStr '''');
          st1 = (if py_truthy k
                 then st\<lparr>openai_api_key := k, effects := effects st @ [ChatCompletion command]\<rparr>
                 else st)
      in case (if py_truthy k then get_ai_response env command else Inl ValueError) of
           Inr r \<Rightarrow> speak (JStr r) False (put (append_item ''assistant'' (JStr r)) st1)
         | Inl e \<Rightarrow>
             (let st3 = st1\<lparr>effects := effects st1 @ [WikipediaSummary command]\<rparr>
              in case wikipedia_summary env command of
                   Inr w \<Rightarrow> speak (JStr w) False (put (append_item ''assistant'' (JStr w)) st3)
                 | Inl e' \<Rightarrow>
                     speak (JStr ''Sorry, I couldn't find an answer to that.'') False
                       (put (append_item ''assistant'' (JStr ''Sorry, I couldn't find an answer.'')) st3)))"
  by (simp add: fallback_def Let_def split: sum.splits)

lemma key_truthy:
  "py_truthy (ConfigManager_get (config (initial_app keyed_config)) ''api_keys.openai'' (JStr ''''))"
  by (simp add: initial_app_def keyed_config_def ConfigManager_get_def dict_get_def py_truthy_def)

text \<open>
  C4. When no keyword matches, \<^verbatim>\<open>_do_command\<close> is the fallback chain. The chat
  completion is called exactly when the configured OpenAI key is truthy (for a string:
  non-empty). The encyclopedia is asked, with the raw command, exactly when there is no
  key or the chat completion raised. The chain adds exactly one item to the
  GUI queue, an assistant response: the chat answer, else the encyclopedia summary,
  else the fixed apology when both failed. The chain has no exceptional outcome.
\<close>

theorem fallback_chain:
  "(route (py_strip (py_lower command)) = Fallback \<longrightarrow>
      do_command env command st = fallback env command st)
   \<and> (ChatCompletion command \<in> set (new_effects st (fallback env command st)))
       = py_truthy (ConfigManager_get (config st) ''api_keys.openai'' (JStr ''''))
   \<and> py_truthy (JStr k) = (k \<noteq> '''')
   \<and> (WikipediaSummary command \<in> set (new_effects st (fallback env command st)))
       = ai_failed env command st
   \<and> gui_queue (fallback env command st) = gui_queue st @ new_items st (fallback env command st)
   \<and> (\<exists>resp. new_items st (fallback env command st) = [append_item ''assistant'' (JStr resp)])
   \<and> (\<not> ai_failed env command st \<longrightarrow>
        new_items st (fallback env command st)
          = [append_item ''assistant'' (JStr (projr (get_ai_response env command)))])
   \<and> (ai_failed env command st \<and> \<not> isl (wikipedia_summary env command) \<longrightarrow>
        new_items st (fallback env command st)
          = [append_item ''assistant'' (JStr (projr (wikipedia_summary env command)))])
   \<and> (ai_failed env command st \<and> isl (wikipedia_summary env command) \<longrightarrow>
        new_items st (fallback env command st)
          = [append_item ''assistant'' (JStr ''Sorry, I couldn't find an answer.'')])"
proof -
  have a: "route (py_strip (py_lower command)) = Fallback \<longrightarrow>
      do_command env command st = fallback env command st"
    by (simp add: do_command_def Let_def run_branch_def on_exception_def)
  have b: "(ChatCompletion command \<in> set (new_effects st (fallback env command st)))
       = py_truthy (ConfigManager_get (config st) ''api_keys.openai'' (JStr ''''))"
    by (auto simp: fallback_cases Let_def new_effects_def speak_def put_def split: sum.splits)
  have c: "py_truthy (JStr k) = (k \<noteq> '''')"
    by (simp add: py_truthy_def)
  have d: "(WikipediaSummary command \<in> set (new_effects st (fallback env command st)))
       = ai_failed env command st"
    by (auto simp: fallback_cases Let_def new_effects_def speak_def put_def ai_failed_def
             split: sum.splits)
  have e: "gui_queue (fallback env command st) = gui_queue st @ new_items st (fallback env command st)"
    by (auto simp: fallback_cases Let_def new_items_def speak_def put_def split: sum.splits)
  have f: "\<exists>resp. new_items st (fallback env command st) = [append_item ''assistant'' (JStr resp)]"
    by (auto simp: fallback_cases Let_def new_items_def speak_def put_def split: sum.splits)
  have g: "\<not> ai_failed env command st \<longrightarrow>
        new_items st (fallback env command st)
          = [append_item ''assistant'' (JStr (projr (get_ai_response env command)))]"
    by (auto simp: fallback_cases Let_def new_items_def speak_def put_def ai_failed_def
             split: sum.splits)
  have h: "ai_failed env command st \<and> \<not> isl (wikipedia_summary env command) \<longrightarrow>
        new_items st (fallback env command st)
          = [append_item ''assistant'' (JStr (projr (wikipedia_summary env command)))]"
    by (auto simp: fallback_cases Let_def new_items_def speak_def put_def ai_failed_def
             split: sum.splits)
  have i: "ai_failed env command st \<and> isl (wikipedia_summary env command) \<longrightarrow>
        new_items st (fallback env command st)
          = [append_item ''assistant'' (JStr ''Sorry, I couldn't find an answer.'')]"
    by (auto simp: fallback_cases Let_def new_items_def speak_def put_def ai_failed_def
             split: sum.splits)
  from a b c d e f g h i show ?thesis by blast
qed

theorem fallback_chain_witness:
  "route (py_strip (py_lower ''Who was Ada Lovelace'')) = Fallback
   \<and> do_command offline_env ''Who was Ada Lovelace'' (initial_app DEFAULT_CONFIG)
       = fallback offline_env ''Who was Ada Lovelace'' (initial_app DEFAULT_CONFIG)
   \<and> ai_failed offline_env ''Who was Ada Lovelace'' (initial_app DEFAULT_CONFIG)
   \<and> isl (wikipedia_summary offline_env ''Who was Ada Lovelace'')
   \<and> new_items (initial_app DEFAULT_CONFIG)
        (fallback offline_env ''Who was Ada Lovelace'' (initial_app DEFAULT_CONFIG))
       = [append_item ''assistant'' (JStr ''Sorry, I couldn't find an answer.'')]
   \<and> \<not> ai_failed (offline_env\<lparr>chat_completion := \<lambda>p. Inr '' A mathematician. ''\<rparr>)
          ''Who was Ada Lovelace'' (initial_app keyed_config)
   \<and> new_items (initial_app keyed_config)
        (fallback (offline_env\<lparr>chat_completion := \<lambda>p. Inr '' A mathematician. ''\<rparr>)
           ''Who was Ada Lovelace'' (initial_app keyed_config))
       = [append_item ''assistant'' (JStr ''A mathematician.'')]
   \<and> ai_failed (offline_env\<lparr>wikipedia_summary := \<lambda>q. Inr ''Ada Lovelace wrote programs.''\<rparr>)
          ''Who was Ada Lovelace'' (initial_app keyed_config)
   \<and> \<not> isl (wikipedia_summary (offline_env\<lparr>wikipedia_summary := \<lambda>q. Inr ''Ada Lovelace wrote programs.''\<rparr>)
          ''Who was Ada Lovelace'')
   \<and> new_items (initial_app keyed_config)
        (fallback (offline_env\<lparr>wikipedia_summary := \<lambda>q. Inr ''Ada Lovelace wrote programs.''\<rparr>)
           ''Who was Ada Lovelace'' (initial_app keyed_config))
       = [append_item ''assistant'' (JStr ''Ada Lovelace wrote programs.'')]"
proof -
  let ?c = "''Who was Ada Lovelace''"
  let ?e2 = "offline_env\<lparr>chat_completion := \<lambda>p. Inr '' A mathematician. ''\<rparr>"
  let ?e3 = "offline_env\<lparr>wikipedia_summary := \<lambda>q. Inr ''Ada Lovelace wrote programs.''\<rparr>"
  note t1 = fallback_chain [of ?c offline_env "initial_app DEFAULT_CONFIG" "''k''"]
  note t2 = fallback_chain [of ?c ?e2 "initial_app keyed_config" "''k''"]
  note t3 = fallback_chain [of ?c ?e3 "initial_app keyed_config" "''k''"]
  have r: "route (py_strip (py_lower ?c)) = Fallback"
    by code_simp
  have f1: "ai_failed offline_env ?c (initial_app DEFAULT_CONFIG)"
    by (simp add: ai_failed_def initial_app_def DEFAULT_CONFIG_def default_api_keys_def
        ConfigManager_get_def dict_get_def py_truthy_def)
  have w1: "isl (wikipedia_summary offline_env ?c)"
    by (simp add: offline_env_def)
  have a2: "get_ai_response ?e2 ?c = Inr ''A mathematician.''"
    by (simp add: get_ai_response_def py_strip_def is_space_def)
  have f2: "\<not> ai_failed ?e2 ?c (initial_app keyed_config)"
    by (simp add: ai_failed_def key_truthy a2)
  have f3: "ai_failed ?e3 ?c (initial_app keyed_config)"
    by (simp add: ai_failed_def get_ai_response_def offline_env_def)
  have w3: "wikipedia_summary ?e3 ?c = Inr ''Ada Lovelace wrote programs.''"
    by simp
  have w3': "\<not> isl (wikipedia_summary ?e3 ?c)"
    by (simp only: w3 sum.disc simp_thms)
  have d: "do_command offline_env ?c (initial_app DEFAULT_CONFIG)
       = fallback offline_env ?c (initial_app DEFAULT_CONFIG)"
    by (rule t1 [THEN conjunct1, THEN mp, OF r])
  have i1: "new_items (initial_app DEFAULT_CONFIG) (fallback offline_env ?c (initial_app DEFAULT_CONFIG))
       = [append_item ''assistant'' (JStr ''Sorry, I couldn't find an answer.'')]"
    by (rule t1 [THEN conjunct2, THEN conjunct2, THEN conjunct2, THEN conjunct2, THEN conjunct2,
          THEN conjunct2, THEN conjunct2, THEN conjunct2, THEN mp, OF conjI [OF f1 w1]])
  have i2: "new_items (initial_app keyed_config) (fallback ?e2 ?c (initial_app keyed_config))
       = [append_item ''assistant'' (JStr ''A mathematician.'')]"
    using t2 [THEN conjunct2, THEN conjunct2, THEN conjunct2, THEN conjunct2, THEN conjunct2,
          THEN conjunct2, THEN conjunct1, THEN mp, OF f2]
    by (simp only: a2 sum.sel)
  have i3: "new_items (initial_app keyed_config) (fallback ?e3 ?c (initial_app keyed_config))
       = [append_item ''assistant'' (JStr ''Ada Lovelace wrote programs.'')]"
    using t3 [THEN conjunct2, THEN conjunct2, THEN conjunct2, THEN conjunct2, THEN conjunct2,
          THEN conjunct2, THEN conjunct2, THEN conjunct1, THEN mp, OF conjI [OF f3 w3']]
    by (simp only: w3 sum.sel)
  show ?thesis
    by (intro conjI) (fact r d f1 w1 i1 f2 i2 f3 w3' i3)+
qed

section \<open>Properties of the GUI queue tick\<close>

lemma taken_Cons_ok: "dispatch_ok env it \<Longrightarrow> taken env (it # q) = Suc (taken env q)"
  by (simp add: taken_def)

lemma taken_Cons_raise: "\<not> dispatch_ok env it \<Longrightarrow> taken env (it # q) = 1"
  by (simp add: taken_def)

lemma drain_left: "fst (snd (drain env q)) = drop (taken env q) q"
proof (induction q)
  case Nil
  show ?case by (simp add: taken_def)
next
  case (Cons it q)
  show ?case
  proof (cases "snd (dispatch env it)")
    case None
    then have "dispatch_ok env it" by (simp add: dispatch_ok_def)
    then show ?thesis using None Cons.IH by (simp add: taken_Cons_ok)
  next
    case (Some e)
    then have "\<not> dispatch_ok env it" by (simp add: dispatch_ok_def)
    then show ?thesis using Some by (simp add: taken_Cons_raise)
  qed
qed

lemma drain_calls:
  "fst (drain env q) = concat (map (\<lambda>it. fst (dispatch env it)) (take (taken env q) q))"
proof (induction q)
  case Nil
  show ?case by (simp add: taken_def)
next
  case (Cons it q)
  show ?case
  proof (cases "snd (dispatch env it)")
    case None
    then have "dispatch_ok env it" by (simp add: dispatch_ok_def)
    then show ?thesis using None Cons.IH by (simp add: taken_Cons_ok)
  next
    case (Some e)
    then have "\<not> dispatch_ok env it" by (simp add: dispatch_ok_def)
    then show ?thesis using Some by (simp add: taken_Cons_raise)
  qed
qed

lemma taken_all: "list_all (dispatch_ok env) q \<Longrightarrow> taken env q = length q"
  by (induction q) (simp_all add: taken_def)

lemma dispatch_other:
  "a \<notin> set [''append'', ''status'', ''button'', ''error_popup'', ''info_popup'']
     \<Longrightarrow> dispatch env (Val (JStr a) # rest) = ([], None)"
  by (simp add: dispatch_def tuple_item_def)

lemma dispatch_append:
  "dispatch env (append_item tag text) = tk_run env (append_text env (Val (JStr tag)) (Val text))"
  by (simp add: dispatch_def tuple_item_def append_item_def)

lemma dispatch_status:
  "dispatch env (status_item s) = tk_run env [StatusSet (Val (JStr s))]"
  by (simp add: dispatch_def tuple_item_def status_item_def)

lemma dispatch_button:
  "dispatch env (button_item w t) = tk_run env [Configure w (Val (JStr t))]"
  by (simp add: dispatch_def tuple_item_def button_item_def)

lemma dispatch_error_popup:
  "dispatch env (error_popup_item m) = tk_run env [ShowError (Val (JStr m))]"
  by (simp add: dispatch_def tuple_item_def error_popup_item_def)

lemma dispatch_info_popup:
  "dispatch env (info_popup_item m) = tk_run env [ShowInfo (Val (JStr m))]"
  by (simp add: dispatch_def tuple_item_def info_popup_item_def)

lemma process_timers:
  "timers (process_gui_queue env st) = timers st @ [(next_after_id st, 100, ProcessGuiQueue)]"
  by (simp add: process_gui_queue_def Let_def after_def)

lemma process_queue:
  "gui_queue (process_gui_queue env st) = drop (taken env (gui_queue st)) (gui_queue st)"
  by (simp add: process_gui_queue_def Let_def after_def drain_left)

lemma process_effects:
  "new_effects st (process_gui_queue env st)
     = map Tk (concat (map (\<lambda>it. fst (dispatch env it)) (take (taken env (gui_queue st)) (gui_queue st))))"
  by (simp add: process_gui_queue_def Let_def after_def new_effects_def drain_calls)

lemma reset_pending_queue:
  "gui_queue reset_pending = [button_item ''listen_button'' start_listening_text, status_item ''Ready'']"
  by (simp add: reset_pending_def)

lemma tk_run_offline: "tk_run offline_env [c] = ([c], None)"
  by (simp add: offline_env_def)

text \<open>
  C2 (as amended). Every tick schedules the next one 100 milliseconds later, exactly
  once, whatever happens while the queue is processed. A tick takes items off the head
  of the queue in FIFO order and dispatches each one, until the queue is empty or the
  dispatch of an item raises: the raising item is taken off too, and the items behind it stay
  on the queue for a later tick. When no dispatch raises, the tick empties the queue and
  carries out the calls of every item in order. The five action tags \<^verbatim>\<open>append\<close>,
  \<^verbatim>\<open>status\<close>, \<^verbatim>\<open>button\<close>, \<^verbatim>\<open>error_popup\<close> and \<^verbatim>\<open>info_popup\<close> are handled;
  an item with any other tag is taken off and nothing is done for it.
\<close>

theorem process_gui_queue_tick:
  "timers (process_gui_queue env st) = timers st @ [(next_after_id st, 100, ProcessGuiQueue)]
   \<and> gui_queue (process_gui_queue env st) = drop (taken env (gui_queue st)) (gui_queue st)
   \<and> new_effects st (process_gui_queue env st)
       = map Tk (concat (map (\<lambda>it. fst (dispatch env it))
                          (take (taken env (gui_queue st)) (gui_queue st))))
   \<and> (list_all (dispatch_ok env) (gui_queue st) \<longrightarrow>
        gui_queue (process_gui_queue env st) = []
        \<and> new_effects st (process_gui_queue env st)
            = map Tk (concat (map (\<lambda>it. fst (dispatch env it)) (gui_queue st))))
   \<and> dispatch env (append_item tag text)
       = tk_run env (append_text env (Val (JStr tag)) (Val text))
   \<and> dispatch env (status_item s) = tk_run env [StatusSet (Val (JStr s))]
   \<and> dispatch env (button_item w t) = tk_run env [Configure w (Val (JStr t))]
   \<and> dispatch env (error_popup_item m) = tk_run env [ShowError (Val (JStr m))]
   \<and> dispatch env (info_popup_item m) = tk_run env [ShowInfo (Val (JStr m))]
   \<and> (a \<notin> set [''append'', ''status'', ''button'', ''error_popup'', ''info_popup'']
        \<longrightarrow> dispatch env (Val (JStr a) # rest) = ([], None))"
proof -
  have all: "gui_queue (process_gui_queue env st) = []
        \<and> new_effects st (process_gui_queue env st)
            = map Tk (concat (map (\<lambda>it. fst (dispatch env it)) (gui_queue st)))"
    if "list_all (dispatch_ok env) (gui_queue st)"
    using taken_all [OF that] by (simp add: process_queue process_effects)
  have other: "dispatch env (Val (JStr a) # rest) = ([], None)"
    if "a \<notin> set [''append'', ''status'', ''button'', ''error_popup'', ''info_popup'']"
    using that by (rule dispatch_other)
  show ?thesis
    by (intro conjI impI)
       (rule process_timers process_queue process_effects dispatch_append dispatch_status
          dispatch_button dispatch_error_popup dispatch_info_popup other
          all [THEN conjunct1] all [THEN conjunct2], assumption?)+
qed

text \<open>
  The claim as stated fails when a dispatch raises: with a toolkit whose
  \<^verbatim>\<open>configure\<close> raises, the tick that finds the button item and the status item takes
  the button item off, carries out nothing, and leaves the status item on the queue.
\<close>

theorem process_gui_queue_counterexample:
  "gui_queue reset_pending
     = [button_item ''listen_button'' start_listening_text, status_item ''Ready'']
   \<and> gui_queue (process_gui_queue configure_fails_env reset_pending) = [status_item ''Ready'']
   \<and> gui_queue (process_gui_queue configure_fails_env reset_pending) \<noteq> []
   \<and> new_effects reset_pending (process_gui_queue configure_fails_env reset_pending) = []
   \<and> timers (process_gui_queue configure_fails_env reset_pending) = [(0, 100, ProcessGuiQueue)]"
proof -
  have d: "dispatch configure_fails_env (button_item ''listen_button'' start_listening_text)
             = ([], Some TclError)"
    by (simp add: dispatch_button configure_fails_env_def)
  have dr: "drain configure_fails_env (gui_queue reset_pending)
             = ([], [status_item ''Ready''], Some TclError)"
    by (simp add: reset_pending_queue d)
  have q: "gui_queue (process_gui_queue configure_fails_env reset_pending) = [status_item ''Ready'']"
    by (simp add: process_gui_queue_def Let_def dr after_def)
  have e: "new_effects reset_pending (process_gui_queue configure_fails_env reset_pending) = []"
    by (simp add: process_gui_queue_def Let_def dr after_def new_effects_def)
  have t: "timers (process_gui_queue configure_fails_env reset_pending) = [(0, 100, ProcessGuiQueue)]"
    by (simp add: process_gui_queue_def Let_def dr after_def)
       (simp add: reset_pending_def initial_app_def)
  have ne: "gui_queue (process_gui_queue configure_fails_env reset_pending) \<noteq> []"
    by (simp only: q) simp
  show ?thesis
    by (intro conjI) (fact reset_pending_queue q ne e t)+
qed

theorem process_gui_queue_tick_witness:
  "list_all (dispatch_ok offline_env) (gui_queue reset_pending)
   \<and> gui_queue (process_gui_queue offline_env reset_pending) = []
   \<and> new_effects reset_pending (process_gui_queue offline_env reset_pending)
       = [Tk (Configure ''listen_button'' (Val (JStr start_listening_text))),
          Tk (StatusSet (Val (JStr ''Ready'')))]
   \<and> ''noop'' \<notin> set [''append'', ''status'', ''button'', ''error_popup'', ''info_popup'']
   \<and> dispatch offline_env [Val (JStr ''noop''), Val (JStr ''x'')] = ([], None)"
proof -
  note t = process_gui_queue_tick [of offline_env reset_pending "''assistant''" "JStr ''x''"
      "''Ready''" "''listen_button''" start_listening_text "''m''" "''noop''" "[Val (JStr ''x'')]"]
  have d1: "dispatch offline_env (button_item ''listen_button'' start_listening_text)
              = ([Configure ''listen_button'' (Val (JStr start_listening_text))], None)"
    by (simp only: dispatch_button tk_run_offline)
  have d2: "dispatch offline_env (status_item ''Ready'') = ([StatusSet (Val (JStr ''Ready''))], None)"
    by (simp only: dispatch_status tk_run_offline)
  have ok: "list_all (dispatch_ok offline_env) (gui_queue reset_pending)"
    by (simp add: reset_pending_queue dispatch_ok_def d1 d2)
  have n: "''noop'' \<notin> set [''append'', ''status'', ''button'', ''error_popup'', ''info_popup'']"
    by simp
  have q: "gui_queue (process_gui_queue offline_env reset_pending) = []"
    by (rule t [THEN conjunct2, THEN conjunct2, THEN conjunct2, THEN conjunct1, THEN mp, OF ok,
          THEN conjunct1])
  have e: "new_effects reset_pending (process_gui_queue offline_env reset_pending)
       = [Tk (Configure ''listen_button'' (Val (JStr start_listening_text))),
          Tk (StatusSet (Val (JStr ''Ready'')))]"
    using t [THEN conjunct2, THEN conjunct2, THEN conjunct2, THEN conjunct1, THEN mp, OF ok,
          THEN conjunct2]
    by (simp add: reset_pending_queue d1 d2)
  have o: "dispatch offline_env [Val (JStr ''noop''), Val (JStr ''x'')] = ([], None)"
    by (rule t [THEN conjunct2, THEN conjunct2, THEN conjunct2, THEN conjunct2, THEN conjunct2,
          THEN conjunct2, THEN conjunct2, THEN conjunct2, THEN conjunct2, THEN mp, OF n])
  show ?thesis
    by (intro conjI) (fact ok q e n o)+
qed

section \<open>Properties of the medication reminders\<close>

text \<open>
  C3. When a reminder fires, \<^verbatim>\<open>_trigger_medication\<close> sets one new timer for the same
  medication and time string, with a delay of 24 * 3600 * 1000 = 86400000 milliseconds
  whatever the clock says, and appends its id to \<^verbatim>\<open>_med_after_ids\<close>. The
  configuration and the file on disk are untouched, so nothing about the firing is
  persisted; the only other changes are the message put on the queue and spoken.
\<close>

theorem trigger_medication_rearms:
  "timers (trigger_medication env med time_str st)
     = timers st @ [(next_after_id st, 86400000, TriggerMedication med time_str)]
   \<and> med_after_ids (trigger_medication env med time_str st)
     = med_after_ids st @ [next_after_id st]
   \<and> (24 * 3600 * 1000 :: nat) = 86400000
   \<and> trigger_medication (env\<lparr>now_us := t\<rparr>) med time_str st
     = trigger_medication env med time_str st
   \<and> config (trigger_medication env med time_str st) = config st
   \<and> disk (trigger_medication env med time_str st) = disk st
   \<and> new_items st (trigger_medication env med time_str st)
     = [append_item ''assistant''
          (JStr (''It's time to take your '' @ med @ '' ('' @ py_str (repr_of env) time_str @ '').''))]
   \<and> new_effects st (trigger_medication env med time_str st)
     = [Speak (JStr (''It's time to take your '' @ med @ '' ('' @ py_str (repr_of env) time_str @ '').'')) True]"
  by (simp add: trigger_medication_def Let_def after_def speak_def put_def new_items_def
        new_effects_def)

lemma numbered_Nil: "numbered n [] = []"
  by (simp add: numbered_def)

lemma numbered_Cons: "numbered n (x # xs) = (n, x) # numbered (Suc n) xs"
  by (simp add: numbered_def upt_conv_Cons del: upt_Suc)

lemma numbered_append: "numbered n (xs @ ys) = numbered n xs @ numbered (n + length xs) ys"
  by (induction xs arbitrary: n) (simp_all add: numbered_Nil numbered_Cons)

lemma map_fst_numbered: "map fst (numbered n xs) = [n ..< n + length xs]"
  by (simp add: numbered_def)

lemma length_numbered: "length (numbered n xs) = length xs"
  by (simp add: numbered_def)

lemma schedule_one_fields:
  "timers (schedule_one env med t st)
     = timers st @ numbered (next_after_id st) (planned_times env med [t])
   \<and> med_after_ids (schedule_one env med t st)
     = med_after_ids st @ map fst (numbered (next_after_id st) (planned_times env med [t]))
   \<and> next_after_id (schedule_one env med t st)
     = next_after_id st + length (planned_times env med [t])"
  by (cases "parse_hhmm t")
     (simp_all add: schedule_one_def after_def Let_def numbered_Nil numbered_Cons)

lemma planned_times_Cons:
  "planned_times env med (t # ts) = planned_times env med [t] @ planned_times env med ts"
  by (cases "parse_hhmm t") simp_all

lemma schedule_times_fields:
  "timers (schedule_times env med ts st)
     = timers st @ numbered (next_after_id st) (planned_times env med ts)
   \<and> med_after_ids (schedule_times env med ts st)
     = med_after_ids st @ map fst (numbered (next_after_id st) (planned_times env med ts))
   \<and> next_after_id (schedule_times env med ts st)
     = next_after_id st + length (planned_times env med ts)"
proof (induction ts arbitrary: st)
  case Nil
  show ?case by (simp add: numbered_Nil)
next
  case (Cons t ts)
  note one = schedule_one_fields [of env med t st]
  note rest = Cons.IH [of "schedule_one env med t st"]
  have p: "planned_times env med (t # ts) = planned_times env med [t] @ planned_times env med ts"
    by (rule planned_times_Cons)
  show ?case
    unfolding p schedule_times.simps
    using one rest by (simp add: numbered_append)
qed

end
